theory Spec2Isabelle
  imports Complex_Main
begin

section \<open>Virtual loopback audio driver: the embedding\<close>

text \<open>
  The definitions below follow \<^verbatim>\<open>surge-audio-driver/src/SurgeAudioDriver.{h,c}\<close> (the
  in-process driver) and \<^verbatim>\<open>native-audio/src/audio_driver/audio_driver_complete.c\<close>,
  \<^verbatim>\<open>audio_driver_properties.c\<close> (the shared-memory variant).

  Conventions. \<^verbatim>\<open>UInt32\<close> and \<^verbatim>\<open>UInt64\<close> values are natural numbers with the wrap-around
  written out (\<open>u32\<close>, \<open>u64\<close>). \<^verbatim>\<open>Float32\<close> and \<^verbatim>\<open>Float64\<close> values are real numbers, with
  no infinities and no NaN. The zero-timestamp clock rounds every \<^verbatim>\<open>Float64\<close> conversion and
  quotient to double precision (\<open>Float64_round\<close>); elsewhere the arithmetic is exact. A call
  whose C behaviour is undefined (a null or out-of-range access) returns \<open>None\<close>.
\<close>

subsection \<open>Machine integers\<close>

definition u32 :: "nat \<Rightarrow> nat" where
  "u32 x = x mod 2 ^ 32"

definition u64 :: "nat \<Rightarrow> nat" where
  "u64 x = x mod 2 ^ 64"



subsection \<open>Double-precision rounding\<close>




subsection \<open>Constants of SurgeAudioDriver.h\<close>

definition kObjectID_PlugIn :: nat where "kObjectID_PlugIn = 1"
definition kObjectID_Device :: nat where "kObjectID_Device = 2"
definition kObjectID_Stream_Input :: nat where "kObjectID_Stream_Input = 3"
definition kObjectID_Stream_Output :: nat where "kObjectID_Stream_Output = 4"
definition kObjectID_Volume_Input_Master :: nat where "kObjectID_Volume_Input_Master = 5"
definition kObjectID_Volume_Output_Master :: nat where "kObjectID_Volume_Output_Master = 6"
definition kObjectID_Mute_Input_Master :: nat where "kObjectID_Mute_Input_Master = 7"
definition kObjectID_Mute_Output_Master :: nat where "kObjectID_Mute_Output_Master = 8"

definition kDevice_Name :: string where "kDevice_Name = ''Surge Audio''"
definition kDevice_Manufacturer :: string where "kDevice_Manufacturer = ''Surge''"
definition kDevice_UID :: string where "kDevice_UID = ''SurgeAudioDevice_UID''"
definition kDevice_ModelUID :: string where "kDevice_ModelUID = ''SurgeAudioDevice_ModelUID''"

definition kSampleRate_Default :: real where "kSampleRate_Default = 48000"
definition kBitsPerChannel :: nat where "kBitsPerChannel = 32"
definition kBytesPerChannel :: nat where "kBytesPerChannel = kBitsPerChannel div 8"
definition kChannelsPerFrame :: nat where "kChannelsPerFrame = 2"
definition kBytesPerFrame :: nat where "kBytesPerFrame = kBytesPerChannel * kChannelsPerFrame"

definition kRingBufferFrameSize :: nat where "kRingBufferFrameSize = 16384"
definition kRingBufferSize :: nat where
  "kRingBufferSize = kRingBufferFrameSize * kBytesPerFrame"

definition kLatency_Frame_Size :: nat where "kLatency_Frame_Size = 512"

subsection \<open>Driver state\<close>

datatype OSStatus =
    kAudioHardwareNoError
  | kAudioHardwareUnspecifiedError
  | kAudioHardwareUnknownPropertyError
  | kAudioHardwareBadPropertySizeError
  | kAudioHardwareIllegalOperationError
  | kAudioHardwareBadObjectError

text \<open>
  \<^verbatim>\<open>SurgeAudioDriverState\<close>. The ring buffer pointer is \<open>None\<close> when it is \<^verbatim>\<open>NULL\<close>; the
  host reference, the bundle id and the mutex carry no data the functions below read.
\<close>

record SurgeAudioDriverState =
  sampleRate :: real
  ringBufferFrameSize :: nat
  deviceIsRunning :: bool
  inputStreamIsActive :: bool
  outputStreamIsActive :: bool
  inputVolume :: real
  outputVolume :: real
  inputMute :: bool
  outputMute :: bool
  ringBuffer :: "real list option"
  ringBufferWritePosition :: nat
  ringBufferReadPosition :: nat
  anchorHostTime :: nat
  anchorSampleTime :: real
  ticksPerFrame :: nat

text \<open>The static initialiser \<^verbatim>\<open>gDriverState = {0}\<close>.\<close>

definition gDriverState_zero :: SurgeAudioDriverState where
  "gDriverState_zero =
     \<lparr> sampleRate = 0, ringBufferFrameSize = 0, deviceIsRunning = False,
       inputStreamIsActive = False, outputStreamIsActive = False,
       inputVolume = 0, outputVolume = 0, inputMute = False, outputMute = False,
       ringBuffer = None, ringBufferWritePosition = 0, ringBufferReadPosition = 0,
       anchorHostTime = 0, anchorSampleTime = 0, ticksPerFrame = 0 \<rparr>"

text \<open>
  The cast \<^verbatim>\<open>(UInt64)x\<close> of a double: truncation. For a negative or too large \<open>x\<close> the C
  cast is undefined; the model then returns the value below.
\<close>

definition UInt64_of_Float64 :: "real \<Rightarrow> nat" where
  "UInt64_of_Float64 x = u64 (nat \<lfloor>x\<rfloor>)"

text \<open>
  The timing computation shared by \<^verbatim>\<open>InitializeDriverState\<close> and the sample-rate setter;
  \<open>numer\<close> and \<open>denom\<close> are what \<^verbatim>\<open>mach_timebase_info\<close> reports. A division by zero is
  0 here, where the C quotient is infinite or NaN and its cast undefined.
\<close>

definition calc_ticksPerFrame :: "nat \<Rightarrow> nat \<Rightarrow> real \<Rightarrow> nat" where
  "calc_ticksPerFrame numer denom rate =
     (let nsPerTick = real numer / real denom;
          nsPerFrame = 1000000000 / rate
      in UInt64_of_Float64 (nsPerFrame / nsPerTick))"

definition InitializeDriverState ::
    "nat \<Rightarrow> nat \<Rightarrow> SurgeAudioDriverState \<Rightarrow> SurgeAudioDriverState" where
  "InitializeDriverState numer denom s =
     s\<lparr> sampleRate := kSampleRate_Default,
        ringBufferFrameSize := kRingBufferFrameSize,
        deviceIsRunning := False,
        inputStreamIsActive := True,
        outputStreamIsActive := True,
        inputVolume := 1,
        outputVolume := 1,
        inputMute := False,
        outputMute := False,
        ringBufferWritePosition := 0,
        ringBufferReadPosition := 0,
        ringBuffer := Some (replicate kRingBufferSize 0),
        ticksPerFrame := calc_ticksPerFrame numer denom kSampleRate_Default \<rparr>"

subsection \<open>Reference counting\<close>






text \<open>\<^verbatim>\<open>AddRef\<close> and \<^verbatim>\<open>Release\<close> of audio_driver_complete.c, on \<^verbatim>\<open>g_ref_count\<close>.\<close>

definition AddRef :: "nat \<Rightarrow> nat \<times> nat" where
  "AddRef g_ref_count = (let c = u32 (g_ref_count + 1) in (c, c))"



subsection \<open>I/O lifecycle\<close>

text \<open>
  \<^verbatim>\<open>StartIO\<close>; \<open>now\<close> is the value \<^verbatim>\<open>mach_absolute_time()\<close> returns. The \<^verbatim>\<open>memset\<close> through
  a null ring buffer pointer is undefined.
\<close>

definition SurgeAudioDriver_StartIO ::
    "nat \<Rightarrow> nat \<Rightarrow> nat \<Rightarrow> SurgeAudioDriverState \<Rightarrow> (OSStatus \<times> SurgeAudioDriverState) option" where
  "SurgeAudioDriver_StartIO now deviceID clientID s =
     (if \<not> deviceIsRunning s then
        (case ringBuffer s of
           None \<Rightarrow> None
         | Some rb \<Rightarrow>
             Some (kAudioHardwareNoError,
                   s\<lparr> anchorHostTime := now,
                      anchorSampleTime := 0,
                      deviceIsRunning := True,
                      ringBuffer := Some (replicate kRingBufferSize 0),
                      ringBufferWritePosition := 0,
                      ringBufferReadPosition := 0 \<rparr>))
      else Some (kAudioHardwareNoError, s))"

definition SurgeAudioDriver_StopIO ::
    "nat \<Rightarrow> nat \<Rightarrow> SurgeAudioDriverState \<Rightarrow> OSStatus \<times> SurgeAudioDriverState" where
  "SurgeAudioDriver_StopIO deviceID clientID s =
     (kAudioHardwareNoError, s\<lparr> deviceIsRunning := False \<rparr>)"



text \<open>A sequence of lifecycle calls on the device, stopping at an undefined one.\<close>

datatype IOCall = CallStartIO nat nat | CallStopIO nat

fun run_IOCalls :: "IOCall list \<Rightarrow> SurgeAudioDriverState \<Rightarrow> SurgeAudioDriverState option" where
  "run_IOCalls [] s = Some s"
| "run_IOCalls (CallStartIO now clientID # cs) s =
     (case SurgeAudioDriver_StartIO now kObjectID_Device clientID s of
        None \<Rightarrow> None
      | Some (st, s1) \<Rightarrow> run_IOCalls cs s1)"
| "run_IOCalls (CallStopIO clientID # cs) s =
     run_IOCalls cs (snd (SurgeAudioDriver_StopIO kObjectID_Device clientID s))"


subsection \<open>Operation capability\<close>

text \<open>
  The I/O operation identifiers of \<^verbatim>\<open>AudioServerPlugIn.h\<close> (four-character codes of the
  platform SDK, pairwise distinct); \<open>kIOOperationOther\<close> stands for any other 32-bit value.
\<close>

datatype IOOperation =
    kAudioServerPlugInIOOperationThread
  | kAudioServerPlugInIOOperationCycle
  | kAudioServerPlugInIOOperationReadInput
  | kAudioServerPlugInIOOperationConvertInput
  | kAudioServerPlugInIOOperationProcessInput
  | kAudioServerPlugInIOOperationProcessOutput
  | kAudioServerPlugInIOOperationMixOutput
  | kAudioServerPlugInIOOperationProcessMix
  | kAudioServerPlugInIOOperationConvertMix
  | kAudioServerPlugInIOOperationWriteMix
  | kIOOperationOther nat

text \<open>The result is \<open>(status, *outWillDo, *outWillDoInPlace)\<close>.\<close>

fun SurgeAudioDriver_WillDoIOOperation :: "IOOperation \<Rightarrow> OSStatus \<times> bool \<times> bool" where
  "SurgeAudioDriver_WillDoIOOperation kAudioServerPlugInIOOperationReadInput =
     (kAudioHardwareNoError, True, True)"
| "SurgeAudioDriver_WillDoIOOperation kAudioServerPlugInIOOperationWriteMix =
     (kAudioHardwareNoError, True, True)"
| "SurgeAudioDriver_WillDoIOOperation operationID =
     (kAudioHardwareNoError, False, True)"

text \<open>
  \<^verbatim>\<open>WillDoIOOperation\<close> of audio_driver_complete.c. The two flags say whether the out
  pointers are non-null; a pointer that is null is not written (\<open>None\<close>).
\<close>

definition WillDoIOOperation ::
    "IOOperation \<Rightarrow> bool \<Rightarrow> bool \<Rightarrow> nat \<times> bool option \<times> bool option" where
  "WillDoIOOperation in_operation_id out_will_do out_will_do_in_place =
     (0, (if out_will_do then Some True else None),
         (if out_will_do_in_place then Some True else None))"

subsection \<open>Property addresses and values\<close>

text \<open>
  The property selectors of \<^verbatim>\<open>AudioHardwareBase.h\<close> and \<^verbatim>\<open>AudioServerPlugIn.h\<close> that the
  drivers name (four-character codes of the platform SDK, pairwise distinct);
  \<open>kSelectorOther\<close> stands for any other 32-bit value. The SDK defines
  \<^verbatim>\<open>kAudioStreamPropertyLatency = kAudioDevicePropertyLatency\<close>.
\<close>

datatype AudioObjectPropertySelector =
    kAudioObjectPropertyBaseClass
  | kAudioObjectPropertyClass
  | kAudioObjectPropertyOwner
  | kAudioObjectPropertyName
  | kAudioObjectPropertyManufacturer
  | kAudioObjectPropertyOwnedObjects
  | kAudioObjectPropertyControlList
  | kAudioPlugInPropertyDeviceList
  | kAudioPlugInPropertyTranslateUIDToDevice
  | kAudioPlugInPropertyResourceBundle
  | kAudioHardwarePropertyPlugInList
  | kAudioDevicePropertyDeviceUID
  | kAudioDevicePropertyModelUID
  | kAudioDevicePropertyTransportType
  | kAudioDevicePropertyRelatedDevices
  | kAudioDevicePropertyClockDomain
  | kAudioDevicePropertyDeviceIsAlive
  | kAudioDevicePropertyDeviceIsRunning
  | kAudioDevicePropertyDeviceCanBeDefaultDevice
  | kAudioDevicePropertyDeviceCanBeDefaultSystemDevice
  | kAudioDevicePropertyLatency
  | kAudioDevicePropertyStreams
  | kAudioDevicePropertySafetyOffset
  | kAudioDevicePropertyNominalSampleRate
  | kAudioDevicePropertyAvailableNominalSampleRates
  | kAudioDevicePropertyIsHidden
  | kAudioDevicePropertyZeroTimeStampPeriod
  | kAudioDevicePropertyIcon
  | kAudioStreamPropertyIsActive
  | kAudioStreamPropertyDirection
  | kAudioStreamPropertyTerminalType
  | kAudioStreamPropertyStartingChannel
  | kAudioStreamPropertyVirtualFormat
  | kAudioStreamPropertyPhysicalFormat
  | kAudioStreamPropertyAvailableVirtualFormats
  | kAudioStreamPropertyAvailablePhysicalFormats
  | kAudioControlPropertyScope
  | kAudioControlPropertyElement
  | kAudioLevelControlPropertyScalarValue
  | kAudioLevelControlPropertyDecibelValue
  | kAudioLevelControlPropertyDecibelRange
  | kAudioLevelControlPropertyConvertScalarToDecibels
  | kAudioLevelControlPropertyConvertDecibelsToScalar
  | kSelectorOther nat

abbreviation kAudioStreamPropertyLatency :: AudioObjectPropertySelector where
  "kAudioStreamPropertyLatency \<equiv> kAudioDevicePropertyLatency"

datatype AudioObjectPropertyScope =
    kAudioObjectPropertyScopeGlobal
  | kAudioObjectPropertyScopeInput
  | kAudioObjectPropertyScopeOutput
  | kAudioObjectPropertyScopePlayThrough
  | kScopeOther nat

record AudioObjectPropertyAddress =
  mSelector :: AudioObjectPropertySelector
  mScope :: AudioObjectPropertyScope
  mElement :: nat

datatype AudioClassID =
    kAudioObjectClassID
  | kAudioPlugInClassID
  | kAudioDeviceClassID
  | kAudioStreamClassID
  | kAudioControlClassID
  | kAudioVolumeControlClassID

datatype AudioFormatID = kAudioFormatLinearPCM

datatype AudioFormatFlag =
    kAudioFormatFlagIsFloat
  | kAudioFormatFlagsNativeEndian
  | kAudioFormatFlagIsPacked

text \<open>The format flags are the list of the flags or-ed together.\<close>

record AudioStreamBasicDescription =
  mSampleRate :: real
  mFormatID :: AudioFormatID
  mFormatFlags :: "AudioFormatFlag list"
  mBytesPerPacket :: nat
  mFramesPerPacket :: nat
  mBytesPerFrame :: nat
  mChannelsPerFrame :: nat
  mBitsPerChannel :: nat

record AudioValueRange =
  mMinimum :: real
  mMaximum :: real

record AudioStreamRangedDescription =
  mFormat :: AudioStreamBasicDescription
  mSampleRateRange :: AudioValueRange

text \<open>
  What a property call reads from or writes to the untyped data pointer: the value with
  the C type the code casts the pointer to.
\<close>

datatype PropertyData =
    ClassIDData AudioClassID
  | ObjectIDData nat
  | ObjectIDArray "nat list"
  | CFStringData string
  | UInt32Data nat
  | ScopeData AudioObjectPropertyScope
  | Float32Data real
  | Float64Data real
  | ValueRangeData AudioValueRange
  | ValueRangeArray "AudioValueRange list"
  | FormatData AudioStreamBasicDescription
  | RangedFormatArray "AudioStreamRangedDescription list"

text \<open>SDK constants and the sizes of the SDK's types on the 64-bit platform.\<close>

definition kAudioObjectUnknown :: nat where "kAudioObjectUnknown = 0"
definition kAudioObjectSystemObject :: nat where "kAudioObjectSystemObject = 1"
definition kAudioObjectPlugInObject :: nat where "kAudioObjectPlugInObject = 1"
definition kAudioObjectPropertyElementMain :: nat where "kAudioObjectPropertyElementMain = 0"
definition kAudioDeviceTransportTypeVirtual :: nat where
  "kAudioDeviceTransportTypeVirtual = 1986622068"
definition kAudioStreamTerminalTypeMicrophone :: nat where
  "kAudioStreamTerminalTypeMicrophone = 1835623282"
definition kAudioStreamTerminalTypeSpeaker :: nat where
  "kAudioStreamTerminalTypeSpeaker = 1936747378"

definition sizeof_AudioClassID :: nat where "sizeof_AudioClassID = 4"
definition sizeof_AudioObjectID :: nat where "sizeof_AudioObjectID = 4"
definition sizeof_AudioObjectPropertyScope :: nat where "sizeof_AudioObjectPropertyScope = 4"
definition sizeof_AudioObjectPropertyElement :: nat where "sizeof_AudioObjectPropertyElement = 4"
definition sizeof_UInt32 :: nat where "sizeof_UInt32 = 4"
definition sizeof_Float32 :: nat where "sizeof_Float32 = 4"
definition sizeof_Float64 :: nat where "sizeof_Float64 = 8"
definition sizeof_CFStringRef :: nat where "sizeof_CFStringRef = 8"
definition sizeof_CFURLRef :: nat where "sizeof_CFURLRef = 8"
definition sizeof_AudioValueRange :: nat where "sizeof_AudioValueRange = 16"
definition sizeof_AudioStreamBasicDescription :: nat where
  "sizeof_AudioStreamBasicDescription = 40"
definition sizeof_AudioStreamRangedDescription :: nat where
  "sizeof_AudioStreamRangedDescription = 56"

subsection \<open>Property dispatcher of the in-process driver\<close>

definition SurgeAudioDriver_HasProperty :: "nat \<Rightarrow> AudioObjectPropertyAddress \<Rightarrow> bool" where
  "SurgeAudioDriver_HasProperty objectID address =
     (if objectID = kObjectID_PlugIn then
        (case mSelector address of
           kAudioObjectPropertyBaseClass \<Rightarrow> True
         | kAudioObjectPropertyClass \<Rightarrow> True
         | kAudioObjectPropertyOwner \<Rightarrow> True
         | kAudioObjectPropertyManufacturer \<Rightarrow> True
         | kAudioObjectPropertyOwnedObjects \<Rightarrow> True
         | kAudioPlugInPropertyDeviceList \<Rightarrow> True
         | kAudioPlugInPropertyTranslateUIDToDevice \<Rightarrow> True
         | kAudioPlugInPropertyResourceBundle \<Rightarrow> True
         | _ \<Rightarrow> False)
      else if objectID = kObjectID_Device then
        (case mSelector address of
           kAudioObjectPropertyBaseClass \<Rightarrow> True
         | kAudioObjectPropertyClass \<Rightarrow> True
         | kAudioObjectPropertyOwner \<Rightarrow> True
         | kAudioObjectPropertyName \<Rightarrow> True
         | kAudioObjectPropertyManufacturer \<Rightarrow> True
         | kAudioDevicePropertyDeviceUID \<Rightarrow> True
         | kAudioDevicePropertyModelUID \<Rightarrow> True
         | kAudioDevicePropertyTransportType \<Rightarrow> True
         | kAudioDevicePropertyRelatedDevices \<Rightarrow> True
         | kAudioDevicePropertyClockDomain \<Rightarrow> True
         | kAudioDevicePropertyDeviceIsAlive \<Rightarrow> True
         | kAudioDevicePropertyDeviceIsRunning \<Rightarrow> True
         | kAudioDevicePropertyDeviceCanBeDefaultDevice \<Rightarrow> True
         | kAudioDevicePropertyDeviceCanBeDefaultSystemDevice \<Rightarrow> True
         | kAudioDevicePropertyLatency \<Rightarrow> True
         | kAudioDevicePropertyStreams \<Rightarrow> True
         | kAudioObjectPropertyControlList \<Rightarrow> True
         | kAudioDevicePropertySafetyOffset \<Rightarrow> True
         | kAudioDevicePropertyNominalSampleRate \<Rightarrow> True
         | kAudioDevicePropertyAvailableNominalSampleRates \<Rightarrow> True
         | kAudioDevicePropertyIsHidden \<Rightarrow> True
         | kAudioDevicePropertyZeroTimeStampPeriod \<Rightarrow> True
         | kAudioDevicePropertyIcon \<Rightarrow> True
         | _ \<Rightarrow> False)
      else if objectID = kObjectID_Stream_Input \<or> objectID = kObjectID_Stream_Output then
        (case mSelector address of
           kAudioObjectPropertyBaseClass \<Rightarrow> True
         | kAudioObjectPropertyClass \<Rightarrow> True
         | kAudioObjectPropertyOwner \<Rightarrow> True
         | kAudioStreamPropertyIsActive \<Rightarrow> True
         | kAudioStreamPropertyDirection \<Rightarrow> True
         | kAudioStreamPropertyTerminalType \<Rightarrow> True
         | kAudioStreamPropertyStartingChannel \<Rightarrow> True
         | kAudioStreamPropertyLatency \<Rightarrow> True
         | kAudioStreamPropertyVirtualFormat \<Rightarrow> True
         | kAudioStreamPropertyPhysicalFormat \<Rightarrow> True
         | kAudioStreamPropertyAvailableVirtualFormats \<Rightarrow> True
         | kAudioStreamPropertyAvailablePhysicalFormats \<Rightarrow> True
         | _ \<Rightarrow> False)
      else if objectID = kObjectID_Volume_Input_Master
            \<or> objectID = kObjectID_Volume_Output_Master then
        (case mSelector address of
           kAudioObjectPropertyBaseClass \<Rightarrow> True
         | kAudioObjectPropertyClass \<Rightarrow> True
         | kAudioObjectPropertyOwner \<Rightarrow> True
         | kAudioObjectPropertyOwnedObjects \<Rightarrow> True
         | kAudioControlPropertyScope \<Rightarrow> True
         | kAudioControlPropertyElement \<Rightarrow> True
         | kAudioLevelControlPropertyScalarValue \<Rightarrow> True
         | kAudioLevelControlPropertyDecibelValue \<Rightarrow> True
         | kAudioLevelControlPropertyDecibelRange \<Rightarrow> True
         | kAudioLevelControlPropertyConvertScalarToDecibels \<Rightarrow> True
         | kAudioLevelControlPropertyConvertDecibelsToScalar \<Rightarrow> True
         | _ \<Rightarrow> False)
      else False)"

text \<open>
  \<^verbatim>\<open>GetPropertyDataSize\<close>: the status and what is stored in \<^verbatim>\<open>*outDataSize\<close> (\<open>None\<close>
  when nothing is stored).
\<close>

definition SurgeAudioDriver_GetPropertyDataSize ::
    "nat \<Rightarrow> AudioObjectPropertyAddress \<Rightarrow> OSStatus \<times> nat option" where
  "SurgeAudioDriver_GetPropertyDataSize objectID address =
     (if objectID = kObjectID_PlugIn then
        (case mSelector address of
           kAudioObjectPropertyBaseClass \<Rightarrow> (kAudioHardwareNoError, Some sizeof_AudioClassID)
         | kAudioObjectPropertyClass \<Rightarrow> (kAudioHardwareNoError, Some sizeof_AudioClassID)
         | kAudioObjectPropertyOwner \<Rightarrow> (kAudioHardwareNoError, Some sizeof_AudioClassID)
         | kAudioObjectPropertyManufacturer \<Rightarrow> (kAudioHardwareNoError, Some sizeof_CFStringRef)
         | kAudioObjectPropertyOwnedObjects \<Rightarrow> (kAudioHardwareNoError, Some sizeof_AudioObjectID)
         | kAudioPlugInPropertyDeviceList \<Rightarrow> (kAudioHardwareNoError, Some sizeof_AudioObjectID)
         | kAudioPlugInPropertyTranslateUIDToDevice \<Rightarrow>
             (kAudioHardwareNoError, Some sizeof_AudioObjectID)
         | kAudioPlugInPropertyResourceBundle \<Rightarrow> (kAudioHardwareNoError, Some sizeof_CFStringRef)
         | _ \<Rightarrow> (kAudioHardwareUnknownPropertyError, None))
      else if objectID = kObjectID_Device then
        (case mSelector address of
           kAudioObjectPropertyBaseClass \<Rightarrow> (kAudioHardwareNoError, Some sizeof_AudioClassID)
         | kAudioObjectPropertyClass \<Rightarrow> (kAudioHardwareNoError, Some sizeof_AudioClassID)
         | kAudioObjectPropertyOwner \<Rightarrow> (kAudioHardwareNoError, Some sizeof_AudioObjectID)
         | kAudioObjectPropertyName \<Rightarrow> (kAudioHardwareNoError, Some sizeof_CFStringRef)
         | kAudioObjectPropertyManufacturer \<Rightarrow> (kAudioHardwareNoError, Some sizeof_CFStringRef)
         | kAudioDevicePropertyDeviceUID \<Rightarrow> (kAudioHardwareNoError, Some sizeof_CFStringRef)
         | kAudioDevicePropertyModelUID \<Rightarrow> (kAudioHardwareNoError, Some sizeof_CFStringRef)
         | kAudioDevicePropertyTransportType \<Rightarrow> (kAudioHardwareNoError, Some sizeof_UInt32)
         | kAudioDevicePropertyClockDomain \<Rightarrow> (kAudioHardwareNoError, Some sizeof_UInt32)
         | kAudioDevicePropertyRelatedDevices \<Rightarrow>
             (kAudioHardwareNoError, Some sizeof_AudioObjectID)
         | kAudioDevicePropertyDeviceIsAlive \<Rightarrow> (kAudioHardwareNoError, Some sizeof_UInt32)
         | kAudioDevicePropertyDeviceIsRunning \<Rightarrow> (kAudioHardwareNoError, Some sizeof_UInt32)
         | kAudioDevicePropertyDeviceCanBeDefaultDevice \<Rightarrow>
             (kAudioHardwareNoError, Some sizeof_UInt32)
         | kAudioDevicePropertyDeviceCanBeDefaultSystemDevice \<Rightarrow>
             (kAudioHardwareNoError, Some sizeof_UInt32)
         | kAudioDevicePropertyIsHidden \<Rightarrow> (kAudioHardwareNoError, Some sizeof_UInt32)
         | kAudioDevicePropertyLatency \<Rightarrow> (kAudioHardwareNoError, Some sizeof_UInt32)
         | kAudioDevicePropertySafetyOffset \<Rightarrow> (kAudioHardwareNoError, Some sizeof_UInt32)
         | kAudioDevicePropertyZeroTimeStampPeriod \<Rightarrow>
             (kAudioHardwareNoError, Some sizeof_UInt32)
         | kAudioDevicePropertyStreams \<Rightarrow>
             (if mScope address = kAudioObjectPropertyScopeInput
              then (kAudioHardwareNoError, Some sizeof_AudioObjectID)
              else if mScope address = kAudioObjectPropertyScopeOutput
              then (kAudioHardwareNoError, Some sizeof_AudioObjectID)
              else (kAudioHardwareNoError, Some (2 * sizeof_AudioObjectID)))
         | kAudioObjectPropertyControlList \<Rightarrow>
             (kAudioHardwareNoError, Some (4 * sizeof_AudioObjectID))
         | kAudioDevicePropertyNominalSampleRate \<Rightarrow>
             (kAudioHardwareNoError, Some sizeof_Float64)
         | kAudioDevicePropertyAvailableNominalSampleRates \<Rightarrow>
             (kAudioHardwareNoError, Some (4 * sizeof_AudioValueRange))
         | kAudioDevicePropertyIcon \<Rightarrow> (kAudioHardwareNoError, Some sizeof_CFURLRef)
         | _ \<Rightarrow> (kAudioHardwareUnknownPropertyError, None))
      else if objectID = kObjectID_Stream_Input \<or> objectID = kObjectID_Stream_Output then
        (case mSelector address of
           kAudioObjectPropertyBaseClass \<Rightarrow> (kAudioHardwareNoError, Some sizeof_AudioClassID)
         | kAudioObjectPropertyClass \<Rightarrow> (kAudioHardwareNoError, Some sizeof_AudioClassID)
         | kAudioObjectPropertyOwner \<Rightarrow> (kAudioHardwareNoError, Some sizeof_AudioObjectID)
         | kAudioStreamPropertyIsActive \<Rightarrow> (kAudioHardwareNoError, Some sizeof_UInt32)
         | kAudioStreamPropertyDirection \<Rightarrow> (kAudioHardwareNoError, Some sizeof_UInt32)
         | kAudioStreamPropertyTerminalType \<Rightarrow> (kAudioHardwareNoError, Some sizeof_UInt32)
         | kAudioStreamPropertyStartingChannel \<Rightarrow> (kAudioHardwareNoError, Some sizeof_UInt32)
         | kAudioStreamPropertyLatency \<Rightarrow> (kAudioHardwareNoError, Some sizeof_UInt32)
         | kAudioStreamPropertyVirtualFormat \<Rightarrow>
             (kAudioHardwareNoError, Some sizeof_AudioStreamBasicDescription)
         | kAudioStreamPropertyPhysicalFormat \<Rightarrow>
             (kAudioHardwareNoError, Some sizeof_AudioStreamBasicDescription)
         | kAudioStreamPropertyAvailableVirtualFormats \<Rightarrow>
             (kAudioHardwareNoError, Some (4 * sizeof_AudioStreamRangedDescription))
         | kAudioStreamPropertyAvailablePhysicalFormats \<Rightarrow>
             (kAudioHardwareNoError, Some (4 * sizeof_AudioStreamRangedDescription))
         | _ \<Rightarrow> (kAudioHardwareUnknownPropertyError, None))
      else if objectID = kObjectID_Volume_Input_Master
            \<or> objectID = kObjectID_Volume_Output_Master then
        (case mSelector address of
           kAudioObjectPropertyBaseClass \<Rightarrow> (kAudioHardwareNoError, Some sizeof_AudioClassID)
         | kAudioObjectPropertyClass \<Rightarrow> (kAudioHardwareNoError, Some sizeof_AudioClassID)
         | kAudioObjectPropertyOwner \<Rightarrow> (kAudioHardwareNoError, Some sizeof_AudioObjectID)
         | kAudioObjectPropertyOwnedObjects \<Rightarrow> (kAudioHardwareNoError, Some 0)
         | kAudioControlPropertyScope \<Rightarrow> (kAudioHardwareNoError, Some sizeof_UInt32)
         | kAudioControlPropertyElement \<Rightarrow> (kAudioHardwareNoError, Some sizeof_UInt32)
         | kAudioLevelControlPropertyScalarValue \<Rightarrow> (kAudioHardwareNoError, Some sizeof_Float32)
         | kAudioLevelControlPropertyDecibelValue \<Rightarrow>
             (kAudioHardwareNoError, Some sizeof_Float32)
         | kAudioLevelControlPropertyConvertScalarToDecibels \<Rightarrow>
             (kAudioHardwareNoError, Some sizeof_Float32)
         | kAudioLevelControlPropertyConvertDecibelsToScalar \<Rightarrow>
             (kAudioHardwareNoError, Some sizeof_Float32)
         | kAudioLevelControlPropertyDecibelRange \<Rightarrow>
             (kAudioHardwareNoError, Some sizeof_AudioValueRange)
         | _ \<Rightarrow> (kAudioHardwareUnknownPropertyError, None))
      else (kAudioHardwareBadObjectError, None))"

text \<open>The eight assignments that fill in the stream format at a sample rate.\<close>

definition FillStreamFormat :: "real \<Rightarrow> AudioStreamBasicDescription" where
  "FillStreamFormat rate =
     \<lparr> mSampleRate = rate,
       mFormatID = kAudioFormatLinearPCM,
       mFormatFlags =
         [kAudioFormatFlagIsFloat, kAudioFormatFlagsNativeEndian, kAudioFormatFlagIsPacked],
       mBytesPerPacket = kBytesPerFrame,
       mFramesPerPacket = 1,
       mBytesPerFrame = kBytesPerFrame,
       mChannelsPerFrame = kChannelsPerFrame,
       mBitsPerChannel = kBitsPerChannel \<rparr>"

definition DegenerateRange :: "real \<Rightarrow> AudioValueRange" where
  "DegenerateRange rate = \<lparr> mMinimum = rate, mMaximum = rate \<rparr>"

text \<open>
  \<^verbatim>\<open>GetPropertyData\<close>: the status, what is stored in \<^verbatim>\<open>*outDataSize\<close> and what is stored
  through \<^verbatim>\<open>outData\<close> (\<open>None\<close> when nothing is stored). Both pointers are taken to be
  valid; \<open>inDataSize\<close> is the size the caller gives for the buffer behind \<^verbatim>\<open>outData\<close>.
  The qualifier is the string \<^verbatim>\<open>qualifierData\<close> points to, \<open>None\<close> for a null pointer.
\<close>

definition SurgeAudioDriver_GetPropertyData ::
    "nat \<Rightarrow> AudioObjectPropertyAddress \<Rightarrow> string option \<Rightarrow> nat \<Rightarrow> SurgeAudioDriverState
       \<Rightarrow> OSStatus \<times> nat option \<times> PropertyData option" where
  "SurgeAudioDriver_GetPropertyData objectID address qualifierData inDataSize s =
     (if objectID = kObjectID_PlugIn then
        (case mSelector address of
           kAudioObjectPropertyBaseClass \<Rightarrow>
             (kAudioHardwareNoError, Some sizeof_AudioClassID,
              Some (ClassIDData kAudioObjectClassID))
         | kAudioObjectPropertyClass \<Rightarrow>
             (kAudioHardwareNoError, Some sizeof_AudioClassID,
              Some (ClassIDData kAudioPlugInClassID))
         | kAudioObjectPropertyOwner \<Rightarrow>
             (kAudioHardwareNoError, Some sizeof_AudioObjectID,
              Some (ObjectIDData kAudioObjectUnknown))
         | kAudioObjectPropertyManufacturer \<Rightarrow>
             (kAudioHardwareNoError, Some sizeof_CFStringRef,
              Some (CFStringData kDevice_Manufacturer))
         | kAudioObjectPropertyOwnedObjects \<Rightarrow>
             (kAudioHardwareNoError, Some sizeof_AudioObjectID,
              Some (ObjectIDData kObjectID_Device))
         | kAudioPlugInPropertyDeviceList \<Rightarrow>
             (kAudioHardwareNoError, Some sizeof_AudioObjectID,
              Some (ObjectIDData kObjectID_Device))
         | kAudioPlugInPropertyTranslateUIDToDevice \<Rightarrow>
             (kAudioHardwareNoError, Some sizeof_AudioObjectID,
              Some (ObjectIDData
                (if qualifierData = Some kDevice_UID then kObjectID_Device
                 else kAudioObjectUnknown)))
         | kAudioPlugInPropertyResourceBundle \<Rightarrow>
             (kAudioHardwareNoError, Some sizeof_CFStringRef, Some (CFStringData []))
         | _ \<Rightarrow> (kAudioHardwareUnknownPropertyError, None, None))
      else if objectID = kObjectID_Device then
        (case mSelector address of
           kAudioObjectPropertyBaseClass \<Rightarrow>
             (kAudioHardwareNoError, Some sizeof_AudioClassID,
              Some (ClassIDData kAudioObjectClassID))
         | kAudioObjectPropertyClass \<Rightarrow>
             (kAudioHardwareNoError, Some sizeof_AudioClassID,
              Some (ClassIDData kAudioDeviceClassID))
         | kAudioObjectPropertyOwner \<Rightarrow>
             (kAudioHardwareNoError, Some sizeof_AudioObjectID,
              Some (ObjectIDData kObjectID_PlugIn))
         | kAudioObjectPropertyName \<Rightarrow>
             (kAudioHardwareNoError, Some sizeof_CFStringRef, Some (CFStringData kDevice_Name))
         | kAudioObjectPropertyManufacturer \<Rightarrow>
             (kAudioHardwareNoError, Some sizeof_CFStringRef,
              Some (CFStringData kDevice_Manufacturer))
         | kAudioDevicePropertyDeviceUID \<Rightarrow>
             (kAudioHardwareNoError, Some sizeof_CFStringRef, Some (CFStringData kDevice_UID))
         | kAudioDevicePropertyModelUID \<Rightarrow>
             (kAudioHardwareNoError, Some sizeof_CFStringRef,
              Some (CFStringData kDevice_ModelUID))
         | kAudioDevicePropertyTransportType \<Rightarrow>
             (kAudioHardwareNoError, Some sizeof_UInt32,
              Some (UInt32Data kAudioDeviceTransportTypeVirtual))
         | kAudioDevicePropertyRelatedDevices \<Rightarrow>
             (kAudioHardwareNoError, Some sizeof_AudioObjectID,
              Some (ObjectIDData kObjectID_Device))
         | kAudioDevicePropertyClockDomain \<Rightarrow>
             (kAudioHardwareNoError, Some sizeof_UInt32, Some (UInt32Data 0))
         | kAudioDevicePropertyDeviceIsAlive \<Rightarrow>
             (kAudioHardwareNoError, Some sizeof_UInt32, Some (UInt32Data 1))
         | kAudioDevicePropertyDeviceIsRunning \<Rightarrow>
             (kAudioHardwareNoError, Some sizeof_UInt32,
              Some (UInt32Data (if deviceIsRunning s then 1 else 0)))
         | kAudioDevicePropertyDeviceCanBeDefaultDevice \<Rightarrow>
             (kAudioHardwareNoError, Some sizeof_UInt32, Some (UInt32Data 1))
         | kAudioDevicePropertyDeviceCanBeDefaultSystemDevice \<Rightarrow>
             (kAudioHardwareNoError, Some sizeof_UInt32, Some (UInt32Data 1))
         | kAudioDevicePropertyIsHidden \<Rightarrow>
             (kAudioHardwareNoError, Some sizeof_UInt32, Some (UInt32Data 0))
         | kAudioDevicePropertyLatency \<Rightarrow>
             (kAudioHardwareNoError, Some sizeof_UInt32, Some (UInt32Data 0))
         | kAudioDevicePropertySafetyOffset \<Rightarrow>
             (kAudioHardwareNoError, Some sizeof_UInt32, Some (UInt32Data 0))
         | kAudioDevicePropertyZeroTimeStampPeriod \<Rightarrow>
             (kAudioHardwareNoError, Some sizeof_UInt32, Some (UInt32Data kLatency_Frame_Size))
         | kAudioDevicePropertyStreams \<Rightarrow>
             (if mScope address = kAudioObjectPropertyScopeInput
              then (kAudioHardwareNoError, Some sizeof_AudioObjectID,
                    Some (ObjectIDData kObjectID_Stream_Input))
              else if mScope address = kAudioObjectPropertyScopeOutput
              then (kAudioHardwareNoError, Some sizeof_AudioObjectID,
                    Some (ObjectIDData kObjectID_Stream_Output))
              else (kAudioHardwareNoError, Some (2 * sizeof_AudioObjectID),
                    Some (ObjectIDArray [kObjectID_Stream_Input, kObjectID_Stream_Output])))
         | kAudioObjectPropertyControlList \<Rightarrow>
             (kAudioHardwareNoError, Some (4 * sizeof_AudioObjectID),
              Some (ObjectIDArray
                [kObjectID_Volume_Input_Master, kObjectID_Volume_Output_Master,
                 kObjectID_Mute_Input_Master, kObjectID_Mute_Output_Master]))
         | kAudioDevicePropertyNominalSampleRate \<Rightarrow>
             (kAudioHardwareNoError, Some sizeof_Float64, Some (Float64Data (sampleRate s)))
         | kAudioDevicePropertyAvailableNominalSampleRates \<Rightarrow>
             (kAudioHardwareNoError, Some (4 * sizeof_AudioValueRange),
              Some (ValueRangeArray
                [\<lparr> mMinimum = 44100, mMaximum = 44100 \<rparr>,
                 \<lparr> mMinimum = 48000, mMaximum = 48000 \<rparr>,
                 \<lparr> mMinimum = 96000, mMaximum = 96000 \<rparr>,
                 \<lparr> mMinimum = 192000, mMaximum = 192000 \<rparr>]))
         | _ \<Rightarrow> (kAudioHardwareUnknownPropertyError, None, None))
      else if objectID = kObjectID_Stream_Input \<or> objectID = kObjectID_Stream_Output then
        (case mSelector address of
           kAudioObjectPropertyBaseClass \<Rightarrow>
             (kAudioHardwareNoError, Some sizeof_AudioClassID,
              Some (ClassIDData kAudioObjectClassID))
         | kAudioObjectPropertyClass \<Rightarrow>
             (kAudioHardwareNoError, Some sizeof_AudioClassID,
              Some (ClassIDData kAudioStreamClassID))
         | kAudioObjectPropertyOwner \<Rightarrow>
             (kAudioHardwareNoError, Some sizeof_AudioObjectID,
              Some (ObjectIDData kObjectID_Device))
         | kAudioStreamPropertyIsActive \<Rightarrow>
             (kAudioHardwareNoError, Some sizeof_UInt32,
              Some (UInt32Data
                (if objectID = kObjectID_Stream_Input
                 then (if inputStreamIsActive s then 1 else 0)
                 else (if outputStreamIsActive s then 1 else 0))))
         | kAudioStreamPropertyDirection \<Rightarrow>
             (kAudioHardwareNoError, Some sizeof_UInt32,
              Some (UInt32Data (if objectID = kObjectID_Stream_Input then 1 else 0)))
         | kAudioStreamPropertyTerminalType \<Rightarrow>
             (kAudioHardwareNoError, Some sizeof_UInt32,
              Some (UInt32Data
                (if objectID = kObjectID_Stream_Input then kAudioStreamTerminalTypeMicrophone
                 else kAudioStreamTerminalTypeSpeaker)))
         | kAudioStreamPropertyStartingChannel \<Rightarrow>
             (kAudioHardwareNoError, Some sizeof_UInt32, Some (UInt32Data 1))
         | kAudioStreamPropertyLatency \<Rightarrow>
             (kAudioHardwareNoError, Some sizeof_UInt32, Some (UInt32Data 0))
         | kAudioStreamPropertyVirtualFormat \<Rightarrow>
             (kAudioHardwareNoError, Some sizeof_AudioStreamBasicDescription,
              Some (FormatData (FillStreamFormat (sampleRate s))))
         | kAudioStreamPropertyPhysicalFormat \<Rightarrow>
             (kAudioHardwareNoError, Some sizeof_AudioStreamBasicDescription,
              Some (FormatData (FillStreamFormat (sampleRate s))))
         | kAudioStreamPropertyAvailableVirtualFormats \<Rightarrow>
             (kAudioHardwareNoError, Some (4 * sizeof_AudioStreamRangedDescription),
              Some (RangedFormatArray
                (map (\<lambda>rate. \<lparr> mFormat = FillStreamFormat rate,
                                mSampleRateRange = DegenerateRange rate \<rparr>)
                   [44100, 48000, 96000, 192000])))
         | kAudioStreamPropertyAvailablePhysicalFormats \<Rightarrow>
             (kAudioHardwareNoError, Some (4 * sizeof_AudioStreamRangedDescription),
              Some (RangedFormatArray
                (map (\<lambda>rate. \<lparr> mFormat = FillStreamFormat rate,
                                mSampleRateRange = DegenerateRange rate \<rparr>)
                   [44100, 48000, 96000, 192000])))
         | _ \<Rightarrow> (kAudioHardwareUnknownPropertyError, None, None))
      else if objectID = kObjectID_Volume_Input_Master
            \<or> objectID = kObjectID_Volume_Output_Master then
        (case mSelector address of
           kAudioObjectPropertyBaseClass \<Rightarrow>
             (kAudioHardwareNoError, Some sizeof_AudioClassID,
              Some (ClassIDData kAudioControlClassID))
         | kAudioObjectPropertyClass \<Rightarrow>
             (kAudioHardwareNoError, Some sizeof_AudioClassID,
              Some (ClassIDData kAudioVolumeControlClassID))
         | kAudioObjectPropertyOwner \<Rightarrow>
             (kAudioHardwareNoError, Some sizeof_AudioObjectID,
              Some (ObjectIDData kObjectID_Device))
         | kAudioObjectPropertyOwnedObjects \<Rightarrow> (kAudioHardwareNoError, Some 0, None)
         | kAudioControlPropertyScope \<Rightarrow>
             (kAudioHardwareNoError, Some sizeof_AudioObjectPropertyScope,
              Some (ScopeData
                (if objectID = kObjectID_Volume_Input_Master then kAudioObjectPropertyScopeInput
                 else kAudioObjectPropertyScopeOutput)))
         | kAudioControlPropertyElement \<Rightarrow>
             (kAudioHardwareNoError, Some sizeof_AudioObjectPropertyElement,
              Some (UInt32Data kAudioObjectPropertyElementMain))
         | kAudioLevelControlPropertyScalarValue \<Rightarrow>
             (kAudioHardwareNoError, Some sizeof_Float32,
              Some (Float32Data
                (if objectID = kObjectID_Volume_Input_Master then inputVolume s
                 else outputVolume s)))
         | kAudioLevelControlPropertyDecibelValue \<Rightarrow>
             (let volume = (if objectID = kObjectID_Volume_Input_Master then inputVolume s
                            else outputVolume s)
              in (kAudioHardwareNoError, Some sizeof_Float32,
                  Some (Float32Data (if volume > 0 then 20 * log 10 volume else - 96))))
         | kAudioLevelControlPropertyDecibelRange \<Rightarrow>
             (kAudioHardwareNoError, Some sizeof_AudioValueRange,
              Some (ValueRangeData \<lparr> mMinimum = - 96, mMaximum = 0 \<rparr>))
         | _ \<Rightarrow> (kAudioHardwareUnknownPropertyError, None, None))
      else (kAudioHardwareBadObjectError, None, None))"

text \<open>
  \<^verbatim>\<open>SetPropertyData\<close>; \<open>numer\<close> and \<open>denom\<close> are what \<^verbatim>\<open>mach_timebase_info\<close> reports and
  \<open>inData\<close> is the value behind the data pointer. The code reads the pointer at a fixed C
  type; data of another type is a reinterpretation of memory, which the model leaves
  undefined (\<open>None\<close>).
\<close>

definition SurgeAudioDriver_SetPropertyData ::
    "nat \<Rightarrow> nat \<Rightarrow> nat \<Rightarrow> AudioObjectPropertyAddress \<Rightarrow> PropertyData \<Rightarrow> SurgeAudioDriverState
       \<Rightarrow> (OSStatus \<times> SurgeAudioDriverState) option" where
  "SurgeAudioDriver_SetPropertyData numer denom objectID address inData s =
     (if objectID = kObjectID_Device then
        (case mSelector address of
           kAudioDevicePropertyNominalSampleRate \<Rightarrow>
             (case inData of
                Float64Data rate \<Rightarrow>
                  Some (kAudioHardwareNoError,
                        s\<lparr> sampleRate := rate,
                           ticksPerFrame := calc_ticksPerFrame numer denom rate \<rparr>)
              | _ \<Rightarrow> None)
         | _ \<Rightarrow> Some (kAudioHardwareUnknownPropertyError, s))
      else if objectID = kObjectID_Stream_Input then
        (case mSelector address of
           kAudioStreamPropertyIsActive \<Rightarrow>
             (case inData of
                UInt32Data v \<Rightarrow>
                  Some (kAudioHardwareNoError, s\<lparr> inputStreamIsActive := (v \<noteq> 0) \<rparr>)
              | _ \<Rightarrow> None)
         | _ \<Rightarrow> Some (kAudioHardwareUnknownPropertyError, s))
      else if objectID = kObjectID_Stream_Output then
        (case mSelector address of
           kAudioStreamPropertyIsActive \<Rightarrow>
             (case inData of
                UInt32Data v \<Rightarrow>
                  Some (kAudioHardwareNoError, s\<lparr> outputStreamIsActive := (v \<noteq> 0) \<rparr>)
              | _ \<Rightarrow> None)
         | _ \<Rightarrow> Some (kAudioHardwareUnknownPropertyError, s))
      else if objectID = kObjectID_Volume_Input_Master then
        (case mSelector address of
           kAudioLevelControlPropertyScalarValue \<Rightarrow>
             (case inData of
                Float32Data v \<Rightarrow> Some (kAudioHardwareNoError, s\<lparr> inputVolume := v \<rparr>)
              | _ \<Rightarrow> None)
         | kAudioLevelControlPropertyDecibelValue \<Rightarrow>
             (case inData of
                Float32Data dB \<Rightarrow>
                  Some (kAudioHardwareNoError, s\<lparr> inputVolume := 10 powr (dB / 20) \<rparr>)
              | _ \<Rightarrow> None)
         | _ \<Rightarrow> Some (kAudioHardwareUnknownPropertyError, s))
      else if objectID = kObjectID_Volume_Output_Master then
        (case mSelector address of
           kAudioLevelControlPropertyScalarValue \<Rightarrow>
             (case inData of
                Float32Data v \<Rightarrow> Some (kAudioHardwareNoError, s\<lparr> outputVolume := v \<rparr>)
              | _ \<Rightarrow> None)
         | kAudioLevelControlPropertyDecibelValue \<Rightarrow>
             (case inData of
                Float32Data dB \<Rightarrow>
                  Some (kAudioHardwareNoError, s\<lparr> outputVolume := 10 powr (dB / 20) \<rparr>)
              | _ \<Rightarrow> None)
         | _ \<Rightarrow> Some (kAudioHardwareUnknownPropertyError, s))
      else Some (kAudioHardwareBadObjectError, s))"

text \<open>A sequence of \<^verbatim>\<open>SetPropertyData\<close> calls, whatever their statuses.\<close>

fun run_SetPropertyData ::
    "nat \<Rightarrow> nat \<Rightarrow> (nat \<times> AudioObjectPropertyAddress \<times> PropertyData) list
       \<Rightarrow> SurgeAudioDriverState \<Rightarrow> SurgeAudioDriverState option" where
  "run_SetPropertyData numer denom [] s = Some s"
| "run_SetPropertyData numer denom ((objectID, address, inData) # cs) s =
     (case SurgeAudioDriver_SetPropertyData numer denom objectID address inData s of
        None \<Rightarrow> None
      | Some (st, s1) \<Rightarrow> run_SetPropertyData numer denom cs s1)"

text \<open>The address of a selector in the global scope, main element.\<close>

definition GlobalAddress :: "AudioObjectPropertySelector \<Rightarrow> AudioObjectPropertyAddress" where
  "GlobalAddress sel =
     \<lparr> mSelector = sel, mScope = kAudioObjectPropertyScopeGlobal,
       mElement = kAudioObjectPropertyElementMain \<rparr>"

subsection \<open>Property getters of the shared-memory variant\<close>

text \<open>
  The fields of \<^verbatim>\<open>AudioDriverState\<close> that the property code reads. \<^verbatim>\<open>noErr\<close> is the same
  status value as \<^verbatim>\<open>kAudioHardwareNoError\<close>.
\<close>

record AudioDriverState =
  device_object_id :: nat
  is_device_created :: bool
  is_capture_active :: bool
  nominal_sample_rate :: real

abbreviation noErr :: OSStatus where
  "noErr \<equiv> kAudioHardwareNoError"

definition DEVICE_UID :: string where "DEVICE_UID = ''GrowhutAudioDriver:VirtualOutput''"
definition DEVICE_NAME :: string where "DEVICE_NAME = ''Growhut Audio Driver''"

text \<open>
  The getters take the value behind \<^verbatim>\<open>out_data_size\<close> (\<open>None\<close> for a null pointer) and
  whether \<^verbatim>\<open>out_data\<close> is non-null. They return the status, the value behind
  \<^verbatim>\<open>out_data_size\<close> afterwards and the data stored through \<^verbatim>\<open>out_data\<close> (\<open>None\<close> when
  nothing is stored). Reading or writing through a null \<^verbatim>\<open>out_data_size\<close> is undefined.

  The store of \<^verbatim>\<open>GetPlugInPropertyData\<close>, repeated in each of its cases:
  \<^verbatim>\<open>if (out_data) { if (*out_data_size >= data_size) { store } else status = bad size }
  else *out_data_size = data_size\<close>.
\<close>

definition plugin_store ::
    "nat \<Rightarrow> PropertyData \<Rightarrow> nat option \<Rightarrow> bool
       \<Rightarrow> (OSStatus \<times> nat option \<times> PropertyData option) option" where
  "plugin_store data_size v out_data_size out_data =
     (case out_data_size of
        None \<Rightarrow> None
      | Some given \<Rightarrow>
          (if out_data then
             (if given \<ge> data_size then Some (noErr, Some data_size, Some v)
              else Some (kAudioHardwareBadPropertySizeError, Some given, None))
           else Some (noErr, Some data_size, None)))"

text \<open>
  The store of \<^verbatim>\<open>GetDevicePropertyData\<close> and \<^verbatim>\<open>GetStreamPropertyData\<close>, repeated in each of
  their cases: \<^verbatim>\<open>if (out_data && *out_data_size >= data_size) { store }
  else if (out_data_size) *out_data_size = data_size\<close>.
\<close>

definition device_store ::
    "nat \<Rightarrow> PropertyData \<Rightarrow> nat option \<Rightarrow> bool
       \<Rightarrow> (OSStatus \<times> nat option \<times> PropertyData option) option" where
  "device_store data_size v out_data_size out_data =
     (if out_data then
        (case out_data_size of
           None \<Rightarrow> None
         | Some given \<Rightarrow>
             (if given \<ge> data_size then Some (noErr, Some data_size, Some v)
              else Some (noErr, Some data_size, None)))
      else
        (case out_data_size of
           None \<Rightarrow> Some (noErr, None, None)
         | Some given \<Rightarrow> Some (noErr, Some data_size, None)))"

definition GetPlugInPropertyData ::
    "AudioObjectPropertyAddress \<Rightarrow> nat option \<Rightarrow> bool
       \<Rightarrow> (OSStatus \<times> nat option \<times> PropertyData option) option" where
  "GetPlugInPropertyData in_address out_data_size out_data =
     (case mSelector in_address of
        kAudioObjectPropertyBaseClass \<Rightarrow>
          plugin_store sizeof_AudioClassID (ClassIDData kAudioPlugInClassID)
            out_data_size out_data
      | kAudioObjectPropertyClass \<Rightarrow>
          plugin_store sizeof_AudioClassID (ClassIDData kAudioPlugInClassID)
            out_data_size out_data
      | kAudioObjectPropertyOwner \<Rightarrow>
          plugin_store sizeof_AudioObjectID (ObjectIDData kAudioObjectSystemObject)
            out_data_size out_data
      | kAudioObjectPropertyName \<Rightarrow>
          plugin_store sizeof_CFStringRef (CFStringData DEVICE_NAME) out_data_size out_data
      | _ \<Rightarrow> Some (kAudioHardwareUnknownPropertyError, out_data_size, None))"

definition GetDevicePropertyData ::
    "AudioDriverState \<Rightarrow> AudioObjectPropertyAddress \<Rightarrow> nat option \<Rightarrow> bool
       \<Rightarrow> (OSStatus \<times> nat option \<times> PropertyData option) option" where
  "GetDevicePropertyData g in_address out_data_size out_data =
     (case mSelector in_address of
        kAudioObjectPropertyBaseClass \<Rightarrow>
          device_store sizeof_AudioClassID (ClassIDData kAudioDeviceClassID)
            out_data_size out_data
      | kAudioObjectPropertyClass \<Rightarrow>
          device_store sizeof_AudioClassID (ClassIDData kAudioDeviceClassID)
            out_data_size out_data
      | kAudioDevicePropertyDeviceUID \<Rightarrow>
          device_store sizeof_CFStringRef (CFStringData DEVICE_UID) out_data_size out_data
      | kAudioDevicePropertyNominalSampleRate \<Rightarrow>
          device_store sizeof_Float64 (Float64Data (nominal_sample_rate g))
            out_data_size out_data
      | kAudioDevicePropertyDeviceIsAlive \<Rightarrow>
          device_store sizeof_UInt32 (UInt32Data (if is_device_created g then 1 else 0))
            out_data_size out_data
      | kAudioDevicePropertyDeviceIsRunning \<Rightarrow>
          device_store sizeof_UInt32 (UInt32Data (if is_capture_active g then 1 else 0))
            out_data_size out_data
      | kAudioDevicePropertyDeviceCanBeDefaultDevice \<Rightarrow>
          device_store sizeof_UInt32 (UInt32Data 1) out_data_size out_data
      | kAudioDevicePropertyDeviceCanBeDefaultSystemDevice \<Rightarrow>
          device_store sizeof_UInt32 (UInt32Data 1) out_data_size out_data
      | kAudioDevicePropertyLatency \<Rightarrow>
          device_store sizeof_UInt32 (UInt32Data 0) out_data_size out_data
      | kAudioDevicePropertySafetyOffset \<Rightarrow>
          device_store sizeof_UInt32 (UInt32Data 0) out_data_size out_data
      | _ \<Rightarrow> Some (kAudioHardwareUnknownPropertyError, out_data_size, None))"

definition GetStreamPropertyData ::
    "AudioObjectPropertyAddress \<Rightarrow> nat option \<Rightarrow> bool
       \<Rightarrow> (OSStatus \<times> nat option \<times> PropertyData option) option" where
  "GetStreamPropertyData in_address out_data_size out_data =
     (case mSelector in_address of
        kAudioObjectPropertyBaseClass \<Rightarrow>
          device_store sizeof_AudioClassID (ClassIDData kAudioStreamClassID)
            out_data_size out_data
      | kAudioStreamPropertyDirection \<Rightarrow>
          device_store sizeof_UInt32 (UInt32Data 1) out_data_size out_data
      | kAudioStreamPropertyLatency \<Rightarrow>
          device_store sizeof_UInt32 (UInt32Data 0) out_data_size out_data
      | _ \<Rightarrow> Some (kAudioHardwareUnknownPropertyError, out_data_size, None))"

text \<open>\<^verbatim>\<open>AudioDriver_GetPropertyData\<close>; the address is \<open>None\<close> for a null pointer.\<close>

definition AudioDriver_GetPropertyData ::
    "AudioDriverState \<Rightarrow> nat \<Rightarrow> AudioObjectPropertyAddress option \<Rightarrow> nat \<Rightarrow> nat option \<Rightarrow> bool
       \<Rightarrow> (OSStatus \<times> nat option \<times> PropertyData option) option" where
  "AudioDriver_GetPropertyData g in_object_id in_address in_data_size out_data_size out_data =
     (case in_address of
        None \<Rightarrow> Some (kAudioHardwareIllegalOperationError, out_data_size, None)
      | Some address \<Rightarrow>
          (if in_object_id = kAudioObjectPlugInObject
           then GetPlugInPropertyData address out_data_size out_data
           else if in_object_id = device_object_id g
           then GetDevicePropertyData g address out_data_size out_data
           else GetStreamPropertyData address out_data_size out_data))"

text \<open>
  \<^verbatim>\<open>AudioDriver_SetPropertyData\<close>, on the part of the state above (the store of the
  shared ring buffer's \<^verbatim>\<open>active\<close> flag is left out).
\<close>

definition AudioDriver_SetPropertyData ::
    "AudioDriverState \<Rightarrow> nat \<Rightarrow> AudioObjectPropertyAddress option \<Rightarrow> nat \<Rightarrow> PropertyData
       \<Rightarrow> (OSStatus \<times> AudioDriverState) option" where
  "AudioDriver_SetPropertyData g in_object_id in_address in_data_size in_data =
     (case in_address of
        None \<Rightarrow> Some (kAudioHardwareIllegalOperationError, g)
      | Some address \<Rightarrow>
          (if in_object_id = device_object_id g
              \<and> mSelector address = kAudioDevicePropertyDeviceIsRunning
              \<and> in_data_size \<ge> sizeof_UInt32
           then (case in_data of
                   UInt32Data is_running \<Rightarrow>
                     Some (noErr, g\<lparr> is_capture_active := (is_running \<noteq> 0) \<rparr>)
                 | _ \<Rightarrow> None)
           else Some (kAudioHardwareIllegalOperationError, g)))"

subsection \<open>I/O operations of the in-process driver\<close>

text \<open>
  The two loops of \<^verbatim>\<open>DoIOOperation\<close>, from index \<open>i\<close> on; \<open>buffer\<close> is the host buffer
  \<^verbatim>\<open>ioMainBuffer\<close>. An index outside the host buffer or outside the ring buffer, and a
  null ring buffer, are undefined.
\<close>

function WriteMix_loop ::
    "nat \<Rightarrow> nat \<Rightarrow> real list \<Rightarrow> SurgeAudioDriverState \<Rightarrow> SurgeAudioDriverState option" where
  "WriteMix_loop numSamples i buffer s =
     (if i < numSamples then
        (case ringBuffer s of
           None \<Rightarrow> None
         | Some rb \<Rightarrow>
             (if i < length buffer \<and> ringBufferWritePosition s < length rb then
                WriteMix_loop numSamples (i + 1) buffer
                  (s\<lparr> ringBuffer :=
                        Some (rb[ringBufferWritePosition s := buffer ! i * outputVolume s]),
                      ringBufferWritePosition :=
                        u32 (ringBufferWritePosition s + 1) mod kRingBufferSize \<rparr>)
              else None))
      else Some s)"
  by pat_completeness auto
termination
  by (relation "measure (\<lambda>(numSamples, i, buffer, s). numSamples - i)") auto

function ReadInput_loop ::
    "nat \<Rightarrow> nat \<Rightarrow> real list \<Rightarrow> SurgeAudioDriverState
       \<Rightarrow> (real list \<times> SurgeAudioDriverState) option" where
  "ReadInput_loop numSamples i buffer s =
     (if i < numSamples then
        (case ringBuffer s of
           None \<Rightarrow> None
         | Some rb \<Rightarrow>
             (if i < length buffer \<and> ringBufferReadPosition s < length rb then
                ReadInput_loop numSamples (i + 1)
                  (buffer[i := rb ! ringBufferReadPosition s * inputVolume s])
                  (s\<lparr> ringBufferReadPosition :=
                        u32 (ringBufferReadPosition s + 1) mod kRingBufferSize \<rparr>)
              else None))
      else Some (buffer, s))"
  by pat_completeness auto
termination
  by (relation "measure (\<lambda>(numSamples, i, buffer, s). numSamples - i)") auto

text \<open>
  \<^verbatim>\<open>DoIOOperation\<close>: the status, the host buffer and the driver state afterwards.
\<close>

definition SurgeAudioDriver_DoIOOperation ::
    "IOOperation \<Rightarrow> nat \<Rightarrow> real list \<Rightarrow> SurgeAudioDriverState
       \<Rightarrow> (OSStatus \<times> real list \<times> SurgeAudioDriverState) option" where
  "SurgeAudioDriver_DoIOOperation operationID ioBufferFrameSize buffer s =
     (let numSamples = u32 (ioBufferFrameSize * kChannelsPerFrame)
      in (case operationID of
            kAudioServerPlugInIOOperationWriteMix \<Rightarrow>
              map_option (\<lambda>s1. (kAudioHardwareNoError, buffer, s1))
                (WriteMix_loop numSamples 0 buffer s)
          | kAudioServerPlugInIOOperationReadInput \<Rightarrow>
              map_option (\<lambda>(buffer1, s1). (kAudioHardwareNoError, buffer1, s1))
                (ReadInput_loop numSamples 0 buffer s)
          | _ \<Rightarrow> Some (kAudioHardwareNoError, buffer, s)))"

text \<open>
  The ring buffer after the values \<open>xs\<close> have been stored one after the other from
  position \<open>p\<close> on, wrapping at the capacity; and the \<open>n\<close> values read one after the
  other from position \<open>p\<close> on.
\<close>

primrec ring_store :: "real list \<Rightarrow> nat \<Rightarrow> real list \<Rightarrow> real list" where
  "ring_store rb p [] = rb"
| "ring_store rb p (x # xs) = ring_store (rb[p mod kRingBufferSize := x]) (p + 1) xs"

definition ring_fetch :: "real list \<Rightarrow> nat \<Rightarrow> nat \<Rightarrow> real list" where
  "ring_fetch rb p n = map (\<lambda>i. rb ! ((p + i) mod kRingBufferSize)) [0..<n]"


text \<open>
  A run of write-mix calls, one per host buffer, and a run of read-input calls, one per
  host buffer to fill; each call is for \<open>K\<close> frames. The reads return the filled buffers.
\<close>

fun run_WriteMix ::
    "nat \<Rightarrow> real list list \<Rightarrow> SurgeAudioDriverState \<Rightarrow> SurgeAudioDriverState option" where
  "run_WriteMix K [] s = Some s"
| "run_WriteMix K (b # bs) s =
     (case SurgeAudioDriver_DoIOOperation kAudioServerPlugInIOOperationWriteMix K b s of
        None \<Rightarrow> None
      | Some (st, b1, s1) \<Rightarrow> run_WriteMix K bs s1)"

fun run_ReadInput ::
    "nat \<Rightarrow> real list list \<Rightarrow> SurgeAudioDriverState
       \<Rightarrow> (real list list \<times> SurgeAudioDriverState) option" where
  "run_ReadInput K [] s = Some ([], s)"
| "run_ReadInput K (b # bs) s =
     (case SurgeAudioDriver_DoIOOperation kAudioServerPlugInIOOperationReadInput K b s of
        None \<Rightarrow> None
      | Some (st, b1, s1) \<Rightarrow>
          (case run_ReadInput K bs s1 of
             None \<Rightarrow> None
           | Some (outs, s2) \<Rightarrow> Some (b1 # outs, s2)))"

section \<open>Properties\<close>

subsection \<open>Reference counting\<close>

declare WriteMix_loop.simps [simp del] ReadInput_loop.simps [simp del]












subsection \<open>Zero-timestamp clock\<close>






























subsection \<open>Operation capability\<close>

text \<open>
  C8 (as amended). \<^verbatim>\<open>SurgeAudioDriver_WillDoIOOperation\<close> answers \<open>willDo = true\<close> exactly for
  the read-input and write-mix operations and \<open>willDo = false\<close> for every other one, with
  \<open>willDoInPlace = true\<close> in every case. \<^verbatim>\<open>WillDoIOOperation\<close> of the shared-memory variant
  answers true to both for every operation.
\<close>

theorem C8_WillDoIOOperation:
  "SurgeAudioDriver_WillDoIOOperation operationID =
     (kAudioHardwareNoError,
      operationID = kAudioServerPlugInIOOperationReadInput
        \<or> operationID = kAudioServerPlugInIOOperationWriteMix,
      True)
   \<and> WillDoIOOperation operationID True True = (0, Some True, Some True)"
  by (cases operationID) (simp_all add: WillDoIOOperation_def)

text \<open>
  C8 as stated fails on the shared-memory variant: it answers \<open>willDo = true\<close> for the
  process-output operation, which is neither write mix nor read input.
\<close>

theorem C8_variant_accepts_every_operation:
  "WillDoIOOperation kAudioServerPlugInIOOperationProcessOutput True True =
     (0, Some True, Some True)"
  by (simp add: WillDoIOOperation_def)

subsection \<open>I/O lifecycle\<close>

text \<open>
  C3 (as amended). The driver keeps no client counter. \<^verbatim>\<open>StartIO\<close> on a device that is not
  running captures the anchor host time, resets the anchor sample time and the ring
  buffer positions, zeros the ring buffer and marks the device running; on a running
  device it changes nothing. \<^verbatim>\<open>StopIO\<close> marks the device not running whatever came
  before: after StartIO(a), StartIO(b), StopIO(a) the device is not running.
\<close>

theorem C3_StartIO_StopIO:
  assumes "ringBuffer s = Some rb"
  shows "(\<not> deviceIsRunning s \<longrightarrow>
            SurgeAudioDriver_StartIO now deviceID a s =
              Some (kAudioHardwareNoError,
                    s\<lparr> anchorHostTime := now, anchorSampleTime := 0, deviceIsRunning := True,
                       ringBuffer := Some (replicate kRingBufferSize 0),
                       ringBufferWritePosition := 0, ringBufferReadPosition := 0 \<rparr>))
       \<and> (deviceIsRunning s \<longrightarrow>
            SurgeAudioDriver_StartIO now deviceID a s = Some (kAudioHardwareNoError, s))
       \<and> SurgeAudioDriver_StopIO deviceID a s =
            (kAudioHardwareNoError, s\<lparr> deviceIsRunning := False \<rparr>)
       \<and> map_option deviceIsRunning
            (run_IOCalls [CallStartIO now a, CallStartIO now' b] s) = Some True
       \<and> map_option deviceIsRunning
            (run_IOCalls [CallStartIO now a, CallStartIO now' b, CallStopIO a] s) = Some False"
  using assms
  by (simp add: SurgeAudioDriver_StartIO_def SurgeAudioDriver_StopIO_def)

theorem C3_StartIO_StopIO_witness:
  "ringBuffer (InitializeDriverState 1 1 gDriverState_zero) = Some (replicate kRingBufferSize 0)
   \<and> \<not> deviceIsRunning (InitializeDriverState 1 1 gDriverState_zero)
   \<and> SurgeAudioDriver_StartIO 100 kObjectID_Device 10
        (InitializeDriverState 1 1 gDriverState_zero) =
       Some (kAudioHardwareNoError,
             (InitializeDriverState 1 1 gDriverState_zero)
               \<lparr> anchorHostTime := 100, anchorSampleTime := 0, deviceIsRunning := True,
                  ringBuffer := Some (replicate kRingBufferSize 0),
                  ringBufferWritePosition := 0, ringBufferReadPosition := 0 \<rparr>)
   \<and> map_option deviceIsRunning
        (run_IOCalls [CallStartIO 100 10, CallStartIO 200 11, CallStopIO 10]
           (InitializeDriverState 1 1 gDriverState_zero)) = Some False"
proof -
  have rb: "ringBuffer (InitializeDriverState 1 1 gDriverState_zero) =
              Some (replicate kRingBufferSize 0)"
    by (simp add: InitializeDriverState_def)
  have nr: "\<not> deviceIsRunning (InitializeDriverState 1 1 gDriverState_zero)"
    by (simp add: InitializeDriverState_def)
  show ?thesis
    using C3_StartIO_StopIO [OF rb, of 100 kObjectID_Device 10 200 11] rb nr
    by blast
qed

text \<open>
  C3 as stated fails: after StartIO by clients 10 and 11 and StopIO by client 10 alone,
  the device is not running.
\<close>

theorem C3_first_StopIO_stops_device:
  "map_option deviceIsRunning
     (run_IOCalls [CallStartIO 100 10, CallStartIO 200 11, CallStopIO 10]
        (InitializeDriverState 1 1 gDriverState_zero)) = Some False"
  by (simp add: SurgeAudioDriver_StartIO_def SurgeAudioDriver_StopIO_def
      InitializeDriverState_def)

subsection \<open>Property dispatcher\<close>

lemmas kObjectID_defs =
  kObjectID_PlugIn_def kObjectID_Device_def kObjectID_Stream_Input_def
  kObjectID_Stream_Output_def kObjectID_Volume_Input_Master_def
  kObjectID_Volume_Output_Master_def

text \<open>
  Apart from the device icon and the two conversion selectors of the volume controls,
  every property that \<^verbatim>\<open>HasProperty\<close> advertises has a size and data.
\<close>

lemma HasProperty_has_size_and_data:
  assumes "SurgeAudioDriver_HasProperty objectID address"
    and "\<not> (objectID = kObjectID_Device \<and> mSelector address = kAudioDevicePropertyIcon)"
    and "\<not> ((objectID = kObjectID_Volume_Input_Master
               \<or> objectID = kObjectID_Volume_Output_Master)
            \<and> (mSelector address = kAudioLevelControlPropertyConvertScalarToDecibels
               \<or> mSelector address = kAudioLevelControlPropertyConvertDecibelsToScalar))"
  shows "fst (SurgeAudioDriver_GetPropertyDataSize objectID address) = kAudioHardwareNoError
       \<and> fst (SurgeAudioDriver_GetPropertyData objectID address q n s) = kAudioHardwareNoError"
  using assms
  by (cases "mSelector address")
    (auto simp add: SurgeAudioDriver_HasProperty_def SurgeAudioDriver_GetPropertyDataSize_def
      SurgeAudioDriver_GetPropertyData_def Let_def kObjectID_defs split: if_splits)

text \<open>
  C7 fails on the code. \<^verbatim>\<open>HasProperty\<close> advertises the device icon and the volume
  controls' scalar-to-decibel and decibel-to-scalar conversions, and
  \<^verbatim>\<open>GetPropertyDataSize\<close> gives each a size, but \<^verbatim>\<open>GetPropertyData\<close> has no case for
  them and returns the unknown-property error without data.
\<close>

theorem C7_advertised_properties_without_data:
  "SurgeAudioDriver_HasProperty kObjectID_Device (GlobalAddress kAudioDevicePropertyIcon)
   \<and> SurgeAudioDriver_GetPropertyDataSize kObjectID_Device
        (GlobalAddress kAudioDevicePropertyIcon) = (kAudioHardwareNoError, Some sizeof_CFURLRef)
   \<and> SurgeAudioDriver_GetPropertyData kObjectID_Device
        (GlobalAddress kAudioDevicePropertyIcon) q n s =
        (kAudioHardwareUnknownPropertyError, None, None)
   \<and> SurgeAudioDriver_HasProperty kObjectID_Volume_Input_Master
        (GlobalAddress kAudioLevelControlPropertyConvertScalarToDecibels)
   \<and> SurgeAudioDriver_GetPropertyDataSize kObjectID_Volume_Input_Master
        (GlobalAddress kAudioLevelControlPropertyConvertScalarToDecibels) =
        (kAudioHardwareNoError, Some sizeof_Float32)
   \<and> SurgeAudioDriver_GetPropertyData kObjectID_Volume_Input_Master
        (GlobalAddress kAudioLevelControlPropertyConvertScalarToDecibels) q n s =
        (kAudioHardwareUnknownPropertyError, None, None)
   \<and> SurgeAudioDriver_HasProperty kObjectID_Volume_Output_Master
        (GlobalAddress kAudioLevelControlPropertyConvertDecibelsToScalar)
   \<and> SurgeAudioDriver_GetPropertyDataSize kObjectID_Volume_Output_Master
        (GlobalAddress kAudioLevelControlPropertyConvertDecibelsToScalar) =
        (kAudioHardwareNoError, Some sizeof_Float32)
   \<and> SurgeAudioDriver_GetPropertyData kObjectID_Volume_Output_Master
        (GlobalAddress kAudioLevelControlPropertyConvertDecibelsToScalar) q n s =
        (kAudioHardwareUnknownPropertyError, None, None)"
  by (simp add: GlobalAddress_def SurgeAudioDriver_HasProperty_def
      SurgeAudioDriver_GetPropertyDataSize_def SurgeAudioDriver_GetPropertyData_def
      kObjectID_defs)

text \<open>
  C6 fails on the code. \<^verbatim>\<open>SurgeAudioDriver_GetPropertyData\<close> never reads \<open>inDataSize\<close>: with
  a buffer of size 0 it stores the four-byte class id and reports success.
  \<^verbatim>\<open>GetDevicePropertyData\<close> of the shared-memory variant stores nothing into a buffer that
  is too small but reports success, where its sibling \<^verbatim>\<open>GetPlugInPropertyData\<close> returns the
  bad-property-size error.
\<close>

theorem C6_small_buffer_is_not_rejected:
  "SurgeAudioDriver_GetPropertyData kObjectID_PlugIn
      (GlobalAddress kAudioObjectPropertyBaseClass) None 0 s =
     (kAudioHardwareNoError, Some sizeof_AudioClassID, Some (ClassIDData kAudioObjectClassID))
   \<and> SurgeAudioDriver_GetPropertyData objectID address q 0 s =
       SurgeAudioDriver_GetPropertyData objectID address q inDataSize s
   \<and> GetDevicePropertyData g (GlobalAddress kAudioObjectPropertyBaseClass) (Some 0) True =
       Some (noErr, Some sizeof_AudioClassID, None)
   \<and> GetPlugInPropertyData (GlobalAddress kAudioObjectPropertyBaseClass) (Some 0) True =
       Some (kAudioHardwareBadPropertySizeError, Some 0, None)"
  by (simp add: GlobalAddress_def SurgeAudioDriver_GetPropertyData_def GetDevicePropertyData_def
      GetPlugInPropertyData_def device_store_def plugin_store_def sizeof_AudioClassID_def
      kObjectID_defs)

text \<open>
  C5 fails on the code. \<^verbatim>\<open>SurgeAudioDriver_SetPropertyData\<close> stores any nominal sample
  rate and reports success: after a set of 22050 the current rate is 22050, which is
  none of the rates that the device advertises. \<^verbatim>\<open>AudioDriver_SetPropertyData\<close> of the
  shared-memory variant refuses the same set with the illegal-operation error.
\<close>

theorem C5_unadvertised_rate_is_accepted:
  "SurgeAudioDriver_SetPropertyData 1 1 kObjectID_Device
      (GlobalAddress kAudioDevicePropertyNominalSampleRate) (Float64Data 22050) s =
     Some (kAudioHardwareNoError, s\<lparr> sampleRate := 22050, ticksPerFrame := 45351 \<rparr>)
   \<and> SurgeAudioDriver_GetPropertyData kObjectID_Device
        (GlobalAddress kAudioDevicePropertyNominalSampleRate) q n
        (s\<lparr> sampleRate := 22050, ticksPerFrame := 45351 \<rparr>) =
       (kAudioHardwareNoError, Some sizeof_Float64, Some (Float64Data 22050))
   \<and> SurgeAudioDriver_GetPropertyData kObjectID_Device
        (GlobalAddress kAudioDevicePropertyAvailableNominalSampleRates) q n s =
       (kAudioHardwareNoError, Some (4 * sizeof_AudioValueRange),
        Some (ValueRangeArray
          [\<lparr> mMinimum = 44100, mMaximum = 44100 \<rparr>,
           \<lparr> mMinimum = 48000, mMaximum = 48000 \<rparr>,
           \<lparr> mMinimum = 96000, mMaximum = 96000 \<rparr>,
           \<lparr> mMinimum = 192000, mMaximum = 192000 \<rparr>]))
   \<and> AudioDriver_SetPropertyData g (device_object_id g)
        (Some (GlobalAddress kAudioDevicePropertyNominalSampleRate)) sizeof_Float64
        (Float64Data 22050) =
       Some (kAudioHardwareIllegalOperationError, g)"
  by (simp add: GlobalAddress_def SurgeAudioDriver_SetPropertyData_def
      SurgeAudioDriver_GetPropertyData_def AudioDriver_SetPropertyData_def kObjectID_defs
      calc_ticksPerFrame_def UInt64_of_Float64_def u64_def)

subsection \<open>Volume scalars\<close>

lemma SetPropertyData_stores_volume:
  "SurgeAudioDriver_SetPropertyData numer denom kObjectID_Volume_Input_Master
      (GlobalAddress kAudioLevelControlPropertyScalarValue) (Float32Data v) s =
     Some (kAudioHardwareNoError, s\<lparr> inputVolume := v \<rparr>)"
  "SurgeAudioDriver_SetPropertyData numer denom kObjectID_Volume_Output_Master
      (GlobalAddress kAudioLevelControlPropertyScalarValue) (Float32Data v) s =
     Some (kAudioHardwareNoError, s\<lparr> outputVolume := v \<rparr>)"
  "SurgeAudioDriver_SetPropertyData numer denom kObjectID_Volume_Input_Master
      (GlobalAddress kAudioLevelControlPropertyDecibelValue) (Float32Data dB) s =
     Some (kAudioHardwareNoError, s\<lparr> inputVolume := 10 powr (dB / 20) \<rparr>)"
  "SurgeAudioDriver_SetPropertyData numer denom kObjectID_Volume_Output_Master
      (GlobalAddress kAudioLevelControlPropertyDecibelValue) (Float32Data dB) s =
     Some (kAudioHardwareNoError, s\<lparr> outputVolume := 10 powr (dB / 20) \<rparr>)"
  by (simp_all add: SurgeAudioDriver_SetPropertyData_def GlobalAddress_def kObjectID_defs)

text \<open>
  C9 fails on the code. \<^verbatim>\<open>SurgeAudioDriver_SetPropertyData\<close> stores the volume it is given
  without a range test: from the initial state, a scalar of 2 given to the input volume
  control is stored as 2, and 20 dB given to the output volume control is stored as the
  scalar 10. The decibel value that \<^verbatim>\<open>SurgeAudioDriver_GetPropertyData\<close> then returns for
  the output volume control is 20, above the maximum 0 of the decibel range \<open>[-96, 0]\<close>
  that the same control advertises.
\<close>

theorem C9_volume_above_one_is_stored:
  "map_option inputVolume
     (run_SetPropertyData 1 1
        [(kObjectID_Volume_Input_Master,
          GlobalAddress kAudioLevelControlPropertyScalarValue, Float32Data 2)]
        (InitializeDriverState 1 1 gDriverState_zero)) = Some 2
   \<and> run_SetPropertyData 1 1
        [(kObjectID_Volume_Output_Master,
          GlobalAddress kAudioLevelControlPropertyDecibelValue, Float32Data 20)]
        (InitializeDriverState 1 1 gDriverState_zero) =
       Some ((InitializeDriverState 1 1 gDriverState_zero)\<lparr> outputVolume := 10 \<rparr>)
   \<and> SurgeAudioDriver_GetPropertyData kObjectID_Volume_Output_Master
        (GlobalAddress kAudioLevelControlPropertyDecibelValue) None sizeof_Float32
        ((InitializeDriverState 1 1 gDriverState_zero)\<lparr> outputVolume := 10 \<rparr>) =
       (kAudioHardwareNoError, Some sizeof_Float32, Some (Float32Data 20))
   \<and> SurgeAudioDriver_GetPropertyData kObjectID_Volume_Output_Master
        (GlobalAddress kAudioLevelControlPropertyDecibelRange) None sizeof_AudioValueRange
        ((InitializeDriverState 1 1 gDriverState_zero)\<lparr> outputVolume := 10 \<rparr>) =
       (kAudioHardwareNoError, Some sizeof_AudioValueRange,
        Some (ValueRangeData \<lparr> mMinimum = - 96, mMaximum = 0 \<rparr>))"
  by (simp add: SurgeAudioDriver_SetPropertyData_def SurgeAudioDriver_GetPropertyData_def
      GlobalAddress_def kObjectID_defs)

subsection \<open>Ring buffer I/O\<close>

lemma kRingBufferSize_eq: "kRingBufferSize = 131072"
  by (simp add: kRingBufferSize_def kRingBufferFrameSize_def kBytesPerFrame_def
      kBytesPerChannel_def kBitsPerChannel_def kChannelsPerFrame_def)

lemma kRingBufferSize_pos: "0 < kRingBufferSize"
  by (simp add: kRingBufferSize_eq)

lemma next_position:
  assumes "p < kRingBufferSize"
  shows "u32 (Suc p) = Suc p"
proof -
  have "Suc p < 2 ^ 32" using assms by (simp add: kRingBufferSize_eq)
  then show ?thesis by (simp add: u32_def)
qed

lemma length_ring_store [simp]: "length (ring_store rb p xs) = length rb"
  by (induction xs arbitrary: rb p) simp_all

lemma ring_store_cong_mod:
  "p mod kRingBufferSize = q mod kRingBufferSize \<Longrightarrow> ring_store rb p xs = ring_store rb q xs"
proof (induction xs arbitrary: rb p q)
  case Nil
  show ?case by simp
next
  case (Cons x xs)
  have "(p + 1) mod kRingBufferSize = (q + 1) mod kRingBufferSize"
    using Cons.prems by (metis mod_add_left_eq)
  then have "ring_store (rb[p mod kRingBufferSize := x]) (p + 1) xs =
             ring_store (rb[p mod kRingBufferSize := x]) (q + 1) xs"
    by (rule Cons.IH)
  then show ?case using Cons.prems by simp
qed

lemma ring_store_mod: "ring_store rb (p mod kRingBufferSize) xs = ring_store rb p xs"
  by (rule ring_store_cong_mod) simp

lemma ring_store_append:
  "ring_store rb p (xs @ ys) = ring_store (ring_store rb p xs) (p + length xs) ys"
  by (induction xs arbitrary: rb p) simp_all

lemma WriteMix_loop_eq:
  assumes "ringBuffer s = Some rb" and "length rb = kRingBufferSize"
    and "ringBufferWritePosition s < kRingBufferSize"
    and "i \<le> n" and "n \<le> length buffer"
  shows "WriteMix_loop n i buffer s =
           Some (s\<lparr> ringBuffer :=
                      Some (ring_store rb (ringBufferWritePosition s)
                              (map (\<lambda>x. x * outputVolume s) (drop i (take n buffer)))),
                    ringBufferWritePosition :=
                      (ringBufferWritePosition s + (n - i)) mod kRingBufferSize \<rparr>)"
  using assms
proof (induction n i buffer s arbitrary: rb rule: WriteMix_loop.induct)
  case (1 n i buffer s)
  show ?case
  proof (cases "i < n")
    case False
    then have "i = n" using "1.prems" by simp
    then show ?thesis
      using "1.prems" by (simp add: WriteMix_loop.simps [of n n])
  next
    case True
    let ?wp = "ringBufferWritePosition s"
    let ?rb1 = "rb[?wp := buffer ! i * outputVolume s]"
    let ?s1 = "s\<lparr> ringBuffer := Some ?rb1,
                   ringBufferWritePosition := u32 (?wp + 1) mod kRingBufferSize \<rparr>"
    have il: "i < length buffer" using True "1.prems" by simp
    have wl: "?wp < length rb" using "1.prems" by simp
    have step: "WriteMix_loop n i buffer s = WriteMix_loop n (i + 1) buffer ?s1"
      using True il wl "1.prems"(1) by (subst WriteMix_loop.simps) simp
    have np: "u32 (Suc ?wp) = Suc ?wp"
      using "1.prems"(3) by (rule next_position)
    have ih: "WriteMix_loop n (i + 1) buffer ?s1 =
           Some (?s1\<lparr> ringBuffer :=
                      Some (ring_store ?rb1 (ringBufferWritePosition ?s1)
                              (map (\<lambda>x. x * outputVolume ?s1) (drop (i + 1) (take n buffer)))),
                    ringBufferWritePosition :=
                      (ringBufferWritePosition ?s1 + (n - (i + 1))) mod kRingBufferSize \<rparr>)"
      using True il wl "1.prems" kRingBufferSize_pos
      by (intro "1.IH" [of rb ?rb1]) simp_all
    have dr: "drop i (take n buffer) = buffer ! i # drop (i + 1) (take n buffer)"
      using True il by (simp add: Cons_nth_drop_Suc [symmetric])
    obtain d where d: "n = Suc (i + d)"
      using True less_iff_Suc_add by auto
    have "((?wp + 1) mod kRingBufferSize + d) mod kRingBufferSize =
          ((?wp + 1) + d) mod kRingBufferSize"
      by (rule mod_add_left_eq)
    then have pos: "(Suc ?wp mod kRingBufferSize + (n - Suc i)) mod kRingBufferSize =
               (?wp + (n - i)) mod kRingBufferSize"
      by (simp add: d)
    have wm: "?wp mod kRingBufferSize = ?wp" using "1.prems"(3) by simp
    show ?thesis
      unfolding step ih dr
      by (simp add: np pos wm ring_store_mod)
  qed
qed

lemma ring_fetch_mod: "ring_fetch rb (p mod kRingBufferSize) n = ring_fetch rb p n"
  by (simp add: ring_fetch_def mod_add_left_eq)

lemma length_ring_fetch [simp]: "length (ring_fetch rb p n) = n"
  by (simp add: ring_fetch_def)

lemma nth_ring_fetch: "i < n \<Longrightarrow> ring_fetch rb p n ! i = rb ! ((p + i) mod kRingBufferSize)"
  by (simp add: ring_fetch_def)

lemma ReadInput_loop_nth:
  assumes "ringBuffer s = Some rb" and "length rb = kRingBufferSize"
    and "ringBufferReadPosition s < kRingBufferSize"
    and "i \<le> n" and "n \<le> length buffer"
  shows "\<exists>b. ReadInput_loop n i buffer s =
               Some (b, s\<lparr> ringBufferReadPosition :=
                             (ringBufferReadPosition s + (n - i)) mod kRingBufferSize \<rparr>)
           \<and> length b = length buffer
           \<and> (\<forall>k < length buffer.
                 b ! k = (if i \<le> k \<and> k < n
                          then rb ! ((ringBufferReadPosition s + (k - i)) mod kRingBufferSize)
                               * inputVolume s
                          else buffer ! k))"
  using assms
proof (induction n i buffer s rule: ReadInput_loop.induct)
  case (1 n i buffer s)
  show ?case
  proof (cases "i < n")
    case False
    then have "i = n" using "1.prems" by simp
    then show ?thesis
      using "1.prems"(3) by (simp add: ReadInput_loop.simps [of n n])
  next
    case True
    let ?rp = "ringBufferReadPosition s"
    let ?b1 = "buffer[i := rb ! ?rp * inputVolume s]"
    let ?s1 = "s\<lparr> ringBufferReadPosition := u32 (?rp + 1) mod kRingBufferSize \<rparr>"
    have il: "i < length buffer" using True "1.prems" by simp
    have rl: "?rp < length rb" using "1.prems" by simp
    have step: "ReadInput_loop n i buffer s = ReadInput_loop n (i + 1) ?b1 ?s1"
      using True il rl "1.prems"(1) by (subst ReadInput_loop.simps) simp
    have np: "u32 (Suc ?rp) = Suc ?rp"
      using "1.prems"(3) by (rule next_position)
    obtain d where d: "n = Suc (i + d)"
      using True less_iff_Suc_add by auto
    have "(Suc ?rp mod kRingBufferSize + d) mod kRingBufferSize =
          (Suc ?rp + d) mod kRingBufferSize"
      by (rule mod_add_left_eq)
    then have pos: "(Suc ?rp mod kRingBufferSize + (n - Suc i)) mod kRingBufferSize =
               (?rp + (n - i)) mod kRingBufferSize"
      by (simp add: d)
    have "\<exists>b. ReadInput_loop n (i + 1) ?b1 ?s1 =
               Some (b, ?s1\<lparr> ringBufferReadPosition :=
                             (ringBufferReadPosition ?s1 + (n - (i + 1))) mod kRingBufferSize \<rparr>)
           \<and> length b = length ?b1
           \<and> (\<forall>k < length ?b1.
                 b ! k = (if i + 1 \<le> k \<and> k < n
                          then rb ! ((ringBufferReadPosition ?s1 + (k - (i + 1))) mod kRingBufferSize)
                               * inputVolume ?s1
                          else ?b1 ! k))"
      using True il rl "1.prems" kRingBufferSize_pos
      by (intro "1.IH" [of rb]) simp_all
    then obtain b where
      b1: "ReadInput_loop n (i + 1) ?b1 ?s1 =
             Some (b, s\<lparr> ringBufferReadPosition := (?rp + (n - i)) mod kRingBufferSize \<rparr>)"
      and b2: "length b = length buffer"
      and b3: "\<forall>k < length buffer.
                 b ! k = (if Suc i \<le> k \<and> k < n
                          then rb ! ((Suc ?rp mod kRingBufferSize + (k - Suc i)) mod kRingBufferSize)
                               * inputVolume s
                          else ?b1 ! k)"
      by (auto simp: np pos)
    have b4: "b ! k = (if i \<le> k \<and> k < n
                       then rb ! ((?rp + (k - i)) mod kRingBufferSize) * inputVolume s
                       else buffer ! k)" if k: "k < length buffer" for k
    proof (cases "Suc i \<le> k \<and> k < n")
      case True
      then obtain e where e: "k = Suc (i + e)"
        using less_iff_Suc_add by (metis Suc_le_lessD)
      have "(Suc ?rp mod kRingBufferSize + e) mod kRingBufferSize =
            (Suc ?rp + e) mod kRingBufferSize"
        by (rule mod_add_left_eq)
      then show ?thesis
        using b3 k True by (simp add: e)
    next
      case False
      show ?thesis
      proof (cases "k = i")
        case True
        then show ?thesis
          using b3 k il \<open>i < n\<close> "1.prems"(3) by simp
      next
        case ne: False
        then show ?thesis
          using b3 k False by auto
      qed
    qed
    show ?thesis
      unfolding step using b1 b2 b4 by blast
  qed
qed

lemma ring_store_untouched:
  "\<forall>k < length xs. (q + k) mod kRingBufferSize \<noteq> j \<Longrightarrow> ring_store rb q xs ! j = rb ! j"
proof (induction xs arbitrary: rb q)
  case Nil
  show ?case by simp
next
  case (Cons x xs)
  have "\<forall>k < length xs. (q + 1 + k) mod kRingBufferSize \<noteq> j"
    using Cons.prems by (metis add.assoc add.commute length_Cons not_less_eq plus_1_eq_Suc)
  then have "ring_store (rb[q mod kRingBufferSize := x]) (q + 1) xs ! j =
             (rb[q mod kRingBufferSize := x]) ! j"
    by (rule Cons.IH)
  moreover have "q mod kRingBufferSize \<noteq> j"
    using Cons.prems by (metis add.right_neutral length_Cons zero_less_Suc)
  ultimately show ?case by simp
qed

lemma mod_shift_neq:
  assumes "0 < d" and "d < c"
  shows "(p + d) mod c \<noteq> p mod (c::nat)"
proof
  assume "(p + d) mod c = p mod c"
  then have "c dvd (p + d) - p"
    by (simp add: mod_eq_dvd_iff_nat)
  then have "c dvd d" by simp
  then have "c \<le> d" using assms(1) by (rule dvd_imp_le)
  then show False using assms(2) by simp
qed

lemma nth_ring_store:
  assumes "length rb = kRingBufferSize" and "i < length xs" and "length xs \<le> i + kRingBufferSize"
  shows "ring_store rb p xs ! ((p + i) mod kRingBufferSize) = xs ! i"
  using assms
proof (induction xs arbitrary: rb p i)
  case Nil
  then show ?case by simp
next
  case (Cons x xs)
  show ?case
  proof (cases i)
    case 0
    have "\<forall>k < length xs. (p + 1 + k) mod kRingBufferSize \<noteq> p mod kRingBufferSize"
    proof (intro allI impI)
      fix k assume "k < length xs"
      then have "0 < 1 + k" "1 + k < kRingBufferSize"
        using Cons.prems(3) 0 by simp_all
      then have "(p + (1 + k)) mod kRingBufferSize \<noteq> p mod kRingBufferSize"
        by (rule mod_shift_neq)
      then show "(p + 1 + k) mod kRingBufferSize \<noteq> p mod kRingBufferSize"
        by (simp add: add.assoc)
    qed
    then have "ring_store (rb[p mod kRingBufferSize := x]) (p + 1) xs ! (p mod kRingBufferSize) =
               (rb[p mod kRingBufferSize := x]) ! (p mod kRingBufferSize)"
      by (rule ring_store_untouched)
    then show ?thesis
      using 0 Cons.prems(1) kRingBufferSize_pos by simp
  next
    case (Suc j)
    have "ring_store (rb[p mod kRingBufferSize := x]) (p + 1) xs ! ((p + 1 + j) mod kRingBufferSize) =
          xs ! j"
      using Cons.prems Suc by (intro Cons.IH) simp_all
    then show ?thesis
      using Suc by simp
  qed
qed

lemma numSamples_eq:
  "n * kChannelsPerFrame < 2 ^ 32 \<Longrightarrow> u32 (n * kChannelsPerFrame) = n * kChannelsPerFrame"
  by (simp add: u32_def)

lemma DoIO_WriteMix_eq:
  assumes "ringBuffer s = Some rb" and "length rb = kRingBufferSize"
    and "ringBufferWritePosition s < kRingBufferSize"
    and "u32 (n * kChannelsPerFrame) \<le> length buffer"
  shows "SurgeAudioDriver_DoIOOperation kAudioServerPlugInIOOperationWriteMix n buffer s =
           Some (kAudioHardwareNoError, buffer,
                 s\<lparr> ringBuffer :=
                      Some (ring_store rb (ringBufferWritePosition s)
                              (map (\<lambda>x. x * outputVolume s)
                                 (take (u32 (n * kChannelsPerFrame)) buffer))),
                    ringBufferWritePosition :=
                      (ringBufferWritePosition s + u32 (n * kChannelsPerFrame))
                        mod kRingBufferSize \<rparr>)"
  using WriteMix_loop_eq [OF assms(1,2,3), of 0 "u32 (n * kChannelsPerFrame)" buffer] assms(4)
  by (simp add: SurgeAudioDriver_DoIOOperation_def)

lemma DoIO_ReadInput_eq:
  assumes "ringBuffer s = Some rb" and "length rb = kRingBufferSize"
    and "ringBufferReadPosition s < kRingBufferSize"
    and "u32 (n * kChannelsPerFrame) \<le> length buffer"
  shows "SurgeAudioDriver_DoIOOperation kAudioServerPlugInIOOperationReadInput n buffer s =
           Some (kAudioHardwareNoError,
                 map (\<lambda>x. x * inputVolume s)
                   (ring_fetch rb (ringBufferReadPosition s) (u32 (n * kChannelsPerFrame)))
                 @ drop (u32 (n * kChannelsPerFrame)) buffer,
                 s\<lparr> ringBufferReadPosition :=
                      (ringBufferReadPosition s + u32 (n * kChannelsPerFrame))
                        mod kRingBufferSize \<rparr>)"
proof -
  let ?m = "u32 (n * kChannelsPerFrame)"
  let ?rp = "ringBufferReadPosition s"
  from ReadInput_loop_nth [OF assms(1,2,3), of 0 ?m buffer] assms(4)
  obtain b where
    b1: "ReadInput_loop ?m 0 buffer s =
           Some (b, s\<lparr> ringBufferReadPosition := (?rp + ?m) mod kRingBufferSize \<rparr>)"
    and b2: "length b = length buffer"
    and b3: "\<forall>k < length buffer.
               b ! k = (if k < ?m then rb ! ((?rp + k) mod kRingBufferSize) * inputVolume s
                        else buffer ! k)"
    by auto
  have "b = map (\<lambda>x. x * inputVolume s) (ring_fetch rb ?rp ?m) @ drop ?m buffer"
  proof (rule nth_equalityI)
    show "length b = length (map (\<lambda>x. x * inputVolume s) (ring_fetch rb ?rp ?m) @ drop ?m buffer)"
      using b2 assms(4) by simp
  next
    fix k assume "k < length b"
    then have k: "k < length buffer" using b2 by simp
    show "b ! k = (map (\<lambda>x. x * inputVolume s) (ring_fetch rb ?rp ?m) @ drop ?m buffer) ! k"
      using b3 k assms(4) by (simp add: nth_append nth_ring_fetch)
  qed
  then show ?thesis
    using b1 by (simp add: SurgeAudioDriver_DoIOOperation_def)
qed

lemma InitializeDriverState_ring:
  "ringBuffer (InitializeDriverState numer denom s) = Some (replicate kRingBufferSize 0)"
  "ringBufferWritePosition (InitializeDriverState numer denom s) = 0"
  "ringBufferReadPosition (InitializeDriverState numer denom s) = 0"
  "inputVolume (InitializeDriverState numer denom s) = 1"
  "outputVolume (InitializeDriverState numer denom s) = 1"
  by (simp_all add: InitializeDriverState_def)


text \<open>
  C2 (as amended). On a driver with an allocated ring buffer and positions below the
  capacity, for a frame count \<open>n\<close> with \<open>n \<times> channels < 2^32\<close> and a host buffer of
  \<open>n \<times> channels\<close> floats: write mix stores each host float times the output volume
  at \<open>(write_position + i) mod capacity\<close>, where it stays unless a later float of the
  same call overwrites it, leaves every other cell and the host buffer as they were,
  and advances the write position by \<open>n \<times> channels\<close> modulo the capacity; read input
  fills the host buffer with the ring buffer floats from the read position on, each
  times the input volume, and advances the read position likewise.
\<close>

theorem C2_DoIOOperation:
  assumes "ringBuffer s = Some rb" and "length rb = kRingBufferSize"
    and "ringBufferWritePosition s < kRingBufferSize"
    and "ringBufferReadPosition s < kRingBufferSize"
    and "n * kChannelsPerFrame < 2 ^ 32"
    and "length buffer = n * kChannelsPerFrame"
  shows "(\<exists>rb1. SurgeAudioDriver_DoIOOperation kAudioServerPlugInIOOperationWriteMix n buffer s =
                  Some (kAudioHardwareNoError, buffer,
                        s\<lparr> ringBuffer := Some rb1,
                           ringBufferWritePosition :=
                             (ringBufferWritePosition s + n * kChannelsPerFrame)
                               mod kRingBufferSize \<rparr>)
              \<and> length rb1 = kRingBufferSize
              \<and> (\<forall>i < n * kChannelsPerFrame. n * kChannelsPerFrame \<le> i + kRingBufferSize \<longrightarrow>
                     rb1 ! ((ringBufferWritePosition s + i) mod kRingBufferSize) =
                       buffer ! i * outputVolume s)
              \<and> (\<forall>j. (\<forall>i < n * kChannelsPerFrame.
                            (ringBufferWritePosition s + i) mod kRingBufferSize \<noteq> j) \<longrightarrow>
                     rb1 ! j = rb ! j))
       \<and> (\<exists>buffer1. SurgeAudioDriver_DoIOOperation kAudioServerPlugInIOOperationReadInput n buffer s =
                  Some (kAudioHardwareNoError, buffer1,
                        s\<lparr> ringBufferReadPosition :=
                             (ringBufferReadPosition s + n * kChannelsPerFrame)
                               mod kRingBufferSize \<rparr>)
              \<and> length buffer1 = n * kChannelsPerFrame
              \<and> (\<forall>i < n * kChannelsPerFrame.
                     buffer1 ! i =
                       rb ! ((ringBufferReadPosition s + i) mod kRingBufferSize) * inputVolume s))"
proof -
  let ?m = "n * kChannelsPerFrame"
  let ?wp = "ringBufferWritePosition s" and ?rp = "ringBufferReadPosition s"
  let ?xs = "map (\<lambda>x. x * outputVolume s) buffer"
  let ?rb1 = "ring_store rb ?wp ?xs"
  have m: "u32 ?m = ?m"
    using assms(5) by (rule numSamples_eq)
  have fit: "u32 ?m \<le> length buffer"
    using m assms(6) by simp
  have w: "SurgeAudioDriver_DoIOOperation kAudioServerPlugInIOOperationWriteMix n buffer s =
             Some (kAudioHardwareNoError, buffer,
                   s\<lparr> ringBuffer := Some ?rb1,
                      ringBufferWritePosition := (?wp + ?m) mod kRingBufferSize \<rparr>)"
    using DoIO_WriteMix_eq [OF assms(1,2,3) fit] by (simp add: m assms(6))
  have w1: "length ?rb1 = kRingBufferSize"
    using assms(2) by simp
  have w2: "?rb1 ! ((?wp + i) mod kRingBufferSize) = buffer ! i * outputVolume s"
    if "i < ?m" "?m \<le> i + kRingBufferSize" for i
    using nth_ring_store [OF assms(2), of i ?xs ?wp] that assms(6) by simp
  have w3: "?rb1 ! j = rb ! j" if "\<forall>i < ?m. (?wp + i) mod kRingBufferSize \<noteq> j" for j
    using that assms(6) by (intro ring_store_untouched) simp
  let ?b1 = "map (\<lambda>x. x * inputVolume s) (ring_fetch rb ?rp ?m)"
  have r: "SurgeAudioDriver_DoIOOperation kAudioServerPlugInIOOperationReadInput n buffer s =
             Some (kAudioHardwareNoError, ?b1,
                   s\<lparr> ringBufferReadPosition := (?rp + ?m) mod kRingBufferSize \<rparr>)"
    using DoIO_ReadInput_eq [OF assms(1,2,4) fit] by (simp add: m assms(6))
  have r1: "length ?b1 = ?m"
    by simp
  have r2: "?b1 ! i = rb ! ((?rp + i) mod kRingBufferSize) * inputVolume s" if "i < ?m" for i
    using that by (simp add: nth_ring_fetch)
  show ?thesis
    using w w1 w2 w3 r r1 r2 by blast
qed

text \<open>With \<open>2^31\<close> frames the 32-bit sample count wraps to 0 and nothing is processed.\<close>

lemma DoIO_WriteMix_wrapped:
  "SurgeAudioDriver_DoIOOperation kAudioServerPlugInIOOperationWriteMix 2147483648 buffer s =
     Some (kAudioHardwareNoError, buffer, s)"
  by (simp add: SurgeAudioDriver_DoIOOperation_def u32_def kChannelsPerFrame_def
      WriteMix_loop.simps [of 0 0])

theorem C2_DoIOOperation_witness:
  "(\<exists>rb1. SurgeAudioDriver_DoIOOperation kAudioServerPlugInIOOperationWriteMix 2
             [1 / 2, 1 / 4, 1, - 1] (InitializeDriverState 1 1 gDriverState_zero) =
             Some (kAudioHardwareNoError, [1 / 2, 1 / 4, 1, - 1],
                   (InitializeDriverState 1 1 gDriverState_zero)
                     \<lparr> ringBuffer := Some rb1,
                        ringBufferWritePosition :=
                          (ringBufferWritePosition (InitializeDriverState 1 1 gDriverState_zero)
                             + 2 * kChannelsPerFrame) mod kRingBufferSize \<rparr>)
         \<and> length rb1 = kRingBufferSize
         \<and> (\<forall>i < 2 * kChannelsPerFrame. 2 * kChannelsPerFrame \<le> i + kRingBufferSize \<longrightarrow>
                rb1 ! ((ringBufferWritePosition (InitializeDriverState 1 1 gDriverState_zero) + i)
                         mod kRingBufferSize) =
                  [1 / 2, 1 / 4, 1, - 1] ! i
                    * outputVolume (InitializeDriverState 1 1 gDriverState_zero))
         \<and> (\<forall>j. (\<forall>i < 2 * kChannelsPerFrame.
                       (ringBufferWritePosition (InitializeDriverState 1 1 gDriverState_zero) + i)
                         mod kRingBufferSize \<noteq> j) \<longrightarrow>
                rb1 ! j = replicate kRingBufferSize 0 ! j))
   \<and> (\<exists>buffer1. SurgeAudioDriver_DoIOOperation kAudioServerPlugInIOOperationReadInput 2
             [1 / 2, 1 / 4, 1, - 1] (InitializeDriverState 1 1 gDriverState_zero) =
             Some (kAudioHardwareNoError, buffer1,
                   (InitializeDriverState 1 1 gDriverState_zero)
                     \<lparr> ringBufferReadPosition :=
                          (ringBufferReadPosition (InitializeDriverState 1 1 gDriverState_zero)
                             + 2 * kChannelsPerFrame) mod kRingBufferSize \<rparr>)
         \<and> length buffer1 = 2 * kChannelsPerFrame
         \<and> (\<forall>i < 2 * kChannelsPerFrame.
                buffer1 ! i =
                  replicate kRingBufferSize 0
                    ! ((ringBufferReadPosition (InitializeDriverState 1 1 gDriverState_zero) + i)
                         mod kRingBufferSize)
                  * inputVolume (InitializeDriverState 1 1 gDriverState_zero)))"
proof -
  let ?s = "InitializeDriverState 1 1 gDriverState_zero"
  have a: "length (replicate kRingBufferSize (0::real)) = kRingBufferSize"
    by simp
  have w: "ringBufferWritePosition ?s < kRingBufferSize"
    by (simp add: InitializeDriverState_ring kRingBufferSize_pos)
  have r: "ringBufferReadPosition ?s < kRingBufferSize"
    by (simp add: InitializeDriverState_ring kRingBufferSize_pos)
  have n: "2 * kChannelsPerFrame < 2 ^ 32"
    by (simp add: kChannelsPerFrame_def)
  have l: "length [1 / 2, 1 / 4, 1, - 1 :: real] = 2 * kChannelsPerFrame"
    by (simp add: kChannelsPerFrame_def)
  show ?thesis
    by (rule C2_DoIOOperation [OF InitializeDriverState_ring(1) a w r n l])
qed

text \<open>
  C2 as stated fails for a frame count of \<open>2^31\<close>: the sample count wraps to 0, so none
  of the \<open>2^32\<close> host floats is stored; the ring buffer stays all zeros although the host
  floats and the output volume are 1.
\<close>

theorem C2_frame_count_wraps:
  "SurgeAudioDriver_DoIOOperation kAudioServerPlugInIOOperationWriteMix 2147483648
      (replicate 4294967296 1) (InitializeDriverState 1 1 gDriverState_zero) =
     Some (kAudioHardwareNoError, replicate 4294967296 1,
           InitializeDriverState 1 1 gDriverState_zero)
   \<and> ringBuffer (InitializeDriverState 1 1 gDriverState_zero) =
       Some (replicate kRingBufferSize 0)
   \<and> outputVolume (InitializeDriverState 1 1 gDriverState_zero) = 1
   \<and> 2147483648 * kChannelsPerFrame = (4294967296 :: nat)"
  by (simp add: DoIO_WriteMix_wrapped InitializeDriverState_ring kChannelsPerFrame_def)

lemma run_WriteMix_eq:
  assumes "ringBuffer s = Some rb" and "length rb = kRingBufferSize"
    and "ringBufferWritePosition s < kRingBufferSize"
    and "\<forall>b \<in> set bufs. u32 (K * kChannelsPerFrame) \<le> length b"
  shows "run_WriteMix K bufs s =
           Some (s\<lparr> ringBuffer :=
                      Some (ring_store rb (ringBufferWritePosition s)
                              (map (\<lambda>x. x * outputVolume s)
                                 (concat (map (take (u32 (K * kChannelsPerFrame))) bufs)))),
                    ringBufferWritePosition :=
                      (ringBufferWritePosition s + length bufs * u32 (K * kChannelsPerFrame))
                        mod kRingBufferSize \<rparr>)"
  using assms
proof (induction bufs arbitrary: s rb)
  case Nil
  have "s\<lparr> ringBuffer := Some rb,
           ringBufferWritePosition := ringBufferWritePosition s \<rparr> = s"
    by (simp add: Nil.prems(1) [symmetric])
  then show ?case
    using Nil.prems(3) by simp
next
  case (Cons b bs)
  let ?m = "u32 (K * kChannelsPerFrame)"
  let ?wp = "ringBufferWritePosition s"
  let ?f = "\<lambda>x. x * outputVolume s"
  let ?rb1 = "ring_store rb ?wp (map ?f (take ?m b))"
  let ?s1 = "s\<lparr> ringBuffer := Some ?rb1,
                 ringBufferWritePosition := (?wp + ?m) mod kRingBufferSize \<rparr>"
  have fit: "?m \<le> length b"
    using Cons.prems(4) by simp
  have call: "SurgeAudioDriver_DoIOOperation kAudioServerPlugInIOOperationWriteMix K b s =
                Some (kAudioHardwareNoError, b, ?s1)"
    using Cons.prems(1,2,3) fit by (rule DoIO_WriteMix_eq)
  have ih: "run_WriteMix K bs ?s1 =
           Some (?s1\<lparr> ringBuffer :=
                      Some (ring_store ?rb1 (ringBufferWritePosition ?s1)
                              (map (\<lambda>x. x * outputVolume ?s1)
                                 (concat (map (take ?m) bs)))),
                    ringBufferWritePosition :=
                      (ringBufferWritePosition ?s1 + length bs * ?m) mod kRingBufferSize \<rparr>)"
    using Cons.prems(2,4) kRingBufferSize_pos by (intro Cons.IH) simp_all
  have len: "length (map ?f (take ?m b)) = ?m"
    using fit by simp
  have st: "ring_store ?rb1 ((?wp + ?m) mod kRingBufferSize) ys =
            ring_store rb ?wp (map ?f (take ?m b) @ ys)" for ys
    by (simp only: ring_store_mod ring_store_append len)
  have pos: "((?wp + ?m) mod kRingBufferSize + length bs * ?m) mod kRingBufferSize =
             (?wp + length (b # bs) * ?m) mod kRingBufferSize"
    by (simp add: mod_add_left_eq add.assoc)
  show ?case
    using call ih by (simp add: st pos del: length_Cons)
qed

lemma run_ReadInput_eq:
  assumes "ringBuffer s = Some rb" and "length rb = kRingBufferSize"
    and "ringBufferReadPosition s < kRingBufferSize"
    and "\<forall>b \<in> set outs. u32 (K * kChannelsPerFrame) \<le> length b"
  shows "\<exists>res. run_ReadInput K outs s =
             Some (res, s\<lparr> ringBufferReadPosition :=
                              (ringBufferReadPosition s + length outs * u32 (K * kChannelsPerFrame))
                                mod kRingBufferSize \<rparr>)
           \<and> length res = length outs
           \<and> (\<forall>j < length outs.
                 res ! j =
                   map (\<lambda>x. x * inputVolume s)
                     (ring_fetch rb (ringBufferReadPosition s + j * u32 (K * kChannelsPerFrame))
                        (u32 (K * kChannelsPerFrame)))
                   @ drop (u32 (K * kChannelsPerFrame)) (outs ! j))"
  using assms
proof (induction outs arbitrary: s)
  case Nil
  then show ?case by simp
next
  case (Cons b bs)
  let ?m = "u32 (K * kChannelsPerFrame)"
  let ?rp = "ringBufferReadPosition s"
  let ?b1 = "map (\<lambda>x. x * inputVolume s) (ring_fetch rb ?rp ?m) @ drop ?m b"
  let ?s1 = "s\<lparr> ringBufferReadPosition := (?rp + ?m) mod kRingBufferSize \<rparr>"
  have fit: "?m \<le> length b"
    using Cons.prems(4) by simp
  have call: "SurgeAudioDriver_DoIOOperation kAudioServerPlugInIOOperationReadInput K b s =
                Some (kAudioHardwareNoError, ?b1, ?s1)"
    using Cons.prems(1,2,3) fit by (rule DoIO_ReadInput_eq)
  have "\<exists>res. run_ReadInput K bs ?s1 =
             Some (res, ?s1\<lparr> ringBufferReadPosition :=
                              (ringBufferReadPosition ?s1 + length bs * ?m) mod kRingBufferSize \<rparr>)
           \<and> length res = length bs
           \<and> (\<forall>j < length bs.
                 res ! j =
                   map (\<lambda>x. x * inputVolume ?s1)
                     (ring_fetch rb (ringBufferReadPosition ?s1 + j * ?m) ?m)
                   @ drop ?m (bs ! j))"
    using Cons.prems(1,2,4) kRingBufferSize_pos by (intro Cons.IH) simp_all
  then obtain res where
    r1: "run_ReadInput K bs ?s1 =
           Some (res, s\<lparr> ringBufferReadPosition :=
                           ((?rp + ?m) mod kRingBufferSize + length bs * ?m) mod kRingBufferSize \<rparr>)"
    and r2: "length res = length bs"
    and r3: "\<forall>j < length bs.
               res ! j = map (\<lambda>x. x * inputVolume s)
                           (ring_fetch rb ((?rp + ?m) mod kRingBufferSize + j * ?m) ?m)
                         @ drop ?m (bs ! j)"
    by auto
  have pos: "((?rp + ?m) mod kRingBufferSize + length bs * ?m) mod kRingBufferSize =
             (?rp + length (b # bs) * ?m) mod kRingBufferSize"
    by (simp add: mod_add_left_eq add.assoc)
  have fetch: "ring_fetch rb ((?rp + ?m) mod kRingBufferSize + j * ?m) ?m =
               ring_fetch rb (?rp + Suc j * ?m) ?m" for j
  proof -
    have "ring_fetch rb ((?rp + ?m) mod kRingBufferSize + j * ?m) ?m =
          ring_fetch rb (((?rp + ?m) mod kRingBufferSize + j * ?m) mod kRingBufferSize) ?m"
      by (simp only: ring_fetch_mod)
    also have "\<dots> = ring_fetch rb ((?rp + ?m + j * ?m) mod kRingBufferSize) ?m"
      by (simp only: mod_add_left_eq)
    also have "\<dots> = ring_fetch rb (?rp + ?m + j * ?m) ?m"
      by (simp only: ring_fetch_mod)
    finally show ?thesis by (simp add: add.assoc)
  qed
  have nth: "(?b1 # res) ! j =
               map (\<lambda>x. x * inputVolume s) (ring_fetch rb (?rp + j * ?m) ?m)
               @ drop ?m ((b # bs) ! j)" if "j < length (b # bs)" for j
  proof (cases j)
    case 0
    then show ?thesis by simp
  next
    case (Suc j')
    then show ?thesis
      using that r3 by (simp add: fetch del: mult_Suc)
  qed
  have "run_ReadInput K (b # bs) s =
          Some (?b1 # res, s\<lparr> ringBufferReadPosition :=
                                (?rp + length (b # bs) * ?m) mod kRingBufferSize \<rparr>)"
    using call r1 by (simp add: pos del: length_Cons)
  moreover have "length (?b1 # res) = length (b # bs)"
    using r2 by simp
  ultimately show ?case
    using nth by blast
qed

lemma length_concat_uniform:
  "\<forall>b \<in> set bufs. length b = m \<Longrightarrow> length (concat bufs) = length bufs * m"
  by (induction bufs) simp_all

lemma nth_concat_uniform:
  "\<forall>b \<in> set bufs. length b = m \<Longrightarrow> j < length bufs \<Longrightarrow> i < m \<Longrightarrow>
     concat bufs ! (j * m + i) = bufs ! j ! i"
proof (induction bufs arbitrary: j)
  case Nil
  then show ?case by simp
next
  case (Cons b bs)
  show ?case
  proof (cases j)
    case 0
    then show ?thesis using Cons.prems by (simp add: nth_append)
  next
    case (Suc j')
    have "concat bs ! (j' * m + i) = bs ! j' ! i"
      using Cons.prems Suc by (intro Cons.IH) simp_all
    moreover have "Suc j' * m + i = length b + (j' * m + i)"
      using Cons.prems(1) by simp
    ultimately show ?thesis
      using Suc by (simp only: concat.simps nth_append_length_plus nth_Cons_Suc)
  qed
qed

lemma position_mod_u32:
  "(p + N * u32 x) mod kRingBufferSize = (p + N * x) mod kRingBufferSize"
proof -
  have "kRingBufferSize dvd (2 ^ 32 :: nat)"
    by (simp add: kRingBufferSize_eq)
  then have "u32 x mod kRingBufferSize = x mod kRingBufferSize"
    unfolding u32_def by (rule mod_mod_cancel)
  then have "(N * u32 x) mod kRingBufferSize = (N * x) mod kRingBufferSize"
    by (metis mod_mult_right_eq)
  then show ?thesis
    by (metis mod_add_right_eq)
qed

lemma write_then_read_runs:
  assumes "ringBuffer s = Some rb" and "length rb = kRingBufferSize"
    and "ringBufferWritePosition s = p0" and "ringBufferReadPosition s = p0"
    and "p0 < kRingBufferSize"
    and "\<forall>b \<in> set bufs. length b = K * kChannelsPerFrame"
    and "\<forall>b \<in> set outs. length b = K * kChannelsPerFrame"
    and "length outs = length bufs"
  shows "\<exists>res.
           run_WriteMix K bufs s =
             Some (s\<lparr> ringBuffer :=
                        Some (ring_store rb p0
                                (map (\<lambda>x. x * outputVolume s)
                                   (concat (map (take (u32 (K * kChannelsPerFrame))) bufs)))),
                      ringBufferWritePosition :=
                        (p0 + length bufs * u32 (K * kChannelsPerFrame)) mod kRingBufferSize \<rparr>)
         \<and> run_ReadInput K outs
               (s\<lparr> ringBuffer :=
                      Some (ring_store rb p0
                              (map (\<lambda>x. x * outputVolume s)
                                 (concat (map (take (u32 (K * kChannelsPerFrame))) bufs)))),
                    ringBufferWritePosition :=
                      (p0 + length bufs * u32 (K * kChannelsPerFrame)) mod kRingBufferSize \<rparr>) =
             Some (res,
                   s\<lparr> ringBuffer :=
                        Some (ring_store rb p0
                                (map (\<lambda>x. x * outputVolume s)
                                   (concat (map (take (u32 (K * kChannelsPerFrame))) bufs)))),
                      ringBufferWritePosition :=
                        (p0 + length bufs * u32 (K * kChannelsPerFrame)) mod kRingBufferSize,
                      ringBufferReadPosition :=
                        (p0 + length bufs * u32 (K * kChannelsPerFrame)) mod kRingBufferSize \<rparr>)
         \<and> length res = length bufs
         \<and> (\<forall>j < length bufs.
               res ! j =
                 map (\<lambda>x. x * inputVolume s)
                   (ring_fetch
                      (ring_store rb p0
                         (map (\<lambda>x. x * outputVolume s)
                            (concat (map (take (u32 (K * kChannelsPerFrame))) bufs))))
                      (p0 + j * u32 (K * kChannelsPerFrame)) (u32 (K * kChannelsPerFrame)))
                 @ drop (u32 (K * kChannelsPerFrame)) (outs ! j))"
proof -
  let ?x = "K * kChannelsPerFrame"
  let ?m = "u32 ?x"
  let ?N = "length bufs"
  have mle: "?m \<le> ?x"
    by (simp add: u32_def)
  have fitw: "\<forall>b \<in> set bufs. ?m \<le> length b"
    using assms(6) mle by simp
  have fitr: "\<forall>b \<in> set outs. ?m \<le> length b"
    using assms(7) mle by simp
  let ?RB = "ring_store rb p0 (map (\<lambda>x. x * outputVolume s) (concat (map (take ?m) bufs)))"
  let ?s1 = "s\<lparr> ringBuffer := Some ?RB,
                 ringBufferWritePosition := (p0 + ?N * ?m) mod kRingBufferSize \<rparr>"
  have w: "run_WriteMix K bufs s = Some ?s1"
    using run_WriteMix_eq [OF assms(1,2) _ fitw] assms(3,5) by simp
  have "\<exists>res. run_ReadInput K outs ?s1 =
             Some (res, ?s1\<lparr> ringBufferReadPosition :=
                              (ringBufferReadPosition ?s1 + length outs * ?m)
                                mod kRingBufferSize \<rparr>)
           \<and> length res = length outs
           \<and> (\<forall>j < length outs.
                 res ! j =
                   map (\<lambda>x. x * inputVolume ?s1)
                     (ring_fetch ?RB (ringBufferReadPosition ?s1 + j * ?m) ?m)
                   @ drop ?m (outs ! j))"
    using assms(2,4,5) fitr by (intro run_ReadInput_eq) simp_all
  then obtain res where
    r1: "run_ReadInput K outs ?s1 =
           Some (res, ?s1\<lparr> ringBufferReadPosition := (p0 + ?N * ?m) mod kRingBufferSize \<rparr>)"
    and r2: "length res = ?N"
    and r3: "\<forall>j < ?N. res ! j = map (\<lambda>x. x * inputVolume s) (ring_fetch ?RB (p0 + j * ?m) ?m)
                                  @ drop ?m (outs ! j)"
    using assms(4,8) by auto
  show ?thesis
    using w r1 r2 r3 by auto
qed

text \<open>
  C1 (as amended). The positions count samples, not frames. Starting with both positions
  equal to \<open>p0\<close>, after \<open>N\<close> write-mix calls of \<open>K\<close> frames each followed by \<open>N\<close>
  read-input calls of \<open>K\<close> frames each, the write and the read position both equal
  \<open>(p0 + N \<times> K \<times> channels) mod capacity\<close>, the capacity being 131072 floats; and with
  both volumes 1 and no overrun (\<open>N \<times> K \<times> channels \<le> capacity\<close>) the buffers that the
  reads return are the buffers that the writes supplied.
\<close>

theorem C1_write_then_read:
  assumes "ringBuffer s = Some rb" and "length rb = kRingBufferSize"
    and "ringBufferWritePosition s = p0" and "ringBufferReadPosition s = p0"
    and "p0 < kRingBufferSize"
    and "\<forall>b \<in> set bufs. length b = K * kChannelsPerFrame"
    and "\<forall>b \<in> set outs. length b = K * kChannelsPerFrame"
    and "length outs = length bufs"
  shows "\<exists>s1 res s2.
           run_WriteMix K bufs s = Some s1
         \<and> run_ReadInput K outs s1 = Some (res, s2)
         \<and> ringBufferWritePosition s2 =
             (p0 + length bufs * K * kChannelsPerFrame) mod kRingBufferSize
         \<and> ringBufferReadPosition s2 =
             (p0 + length bufs * K * kChannelsPerFrame) mod kRingBufferSize
         \<and> (inputVolume s = 1 \<and> outputVolume s = 1
              \<and> length bufs * K * kChannelsPerFrame \<le> kRingBufferSize \<longrightarrow> res = bufs)"
proof -
  let ?x = "K * kChannelsPerFrame"
  let ?m = "u32 ?x"
  let ?N = "length bufs"
  let ?RB = "ring_store rb p0 (map (\<lambda>x. x * outputVolume s) (concat (map (take ?m) bufs)))"
  let ?s1 = "s\<lparr> ringBuffer := Some ?RB,
                 ringBufferWritePosition := (p0 + ?N * ?m) mod kRingBufferSize \<rparr>"
  from write_then_read_runs [OF assms]
  obtain res where
    w: "run_WriteMix K bufs s = Some ?s1"
    and r1: "run_ReadInput K outs ?s1 =
           Some (res, ?s1\<lparr> ringBufferReadPosition := (p0 + ?N * ?m) mod kRingBufferSize \<rparr>)"
    and r2: "length res = ?N"
    and r3: "\<forall>j < ?N. res ! j = map (\<lambda>x. x * inputVolume s) (ring_fetch ?RB (p0 + j * ?m) ?m)
                                  @ drop ?m (outs ! j)"
    by auto
  let ?s2 = "?s1\<lparr> ringBufferReadPosition := (p0 + ?N * ?m) mod kRingBufferSize \<rparr>"
  have pos: "(p0 + ?N * ?m) mod kRingBufferSize = (p0 + ?N * K * kChannelsPerFrame) mod kRingBufferSize"
    using position_mod_u32 [of p0 ?N ?x] by (simp add: mult.assoc)
  have same: "res = bufs"
    if v: "inputVolume s = 1" "outputVolume s = 1" and fits: "?N * K * kChannelsPerFrame \<le> kRingBufferSize"
  proof (cases "?N = 0")
    case True
    then show ?thesis using r2 by simp
  next
    case False
    then have "1 \<le> ?N" by (cases bufs) simp_all
    then have "1 * ?x \<le> ?N * ?x" by (rule mult_le_mono1)
    then have xn: "?x \<le> ?N * ?x" by (simp only: mult_1)
    have "?N * ?x \<le> kRingBufferSize" using fits by (simp only: mult.assoc)
    with xn have "?x \<le> kRingBufferSize" by (rule order_trans)
    then have "?x < 2 ^ 32" by (simp add: kRingBufferSize_eq)
    then have m: "?m = ?x" by (simp add: u32_def)
    have tk: "map (take ?m) bufs = bufs"
      using assms(6) m by (simp add: map_idI)
    have RB: "?RB = ring_store rb p0 (concat bufs)"
      by (simp add: tk v)
    have lc: "length (concat bufs) = ?N * ?x"
      using assms(6) by (rule length_concat_uniform)
    show ?thesis
    proof (rule nth_equalityI)
      show "length res = length bufs" by (rule r2)
    next
      fix j assume "j < length res"
      then have j: "j < ?N" using r2 by simp
      have lo: "length (outs ! j) = ?x"
        using assms(7,8) j by simp
      have lb: "length (bufs ! j) = ?x"
        using assms(6) j by simp
      have "res ! j = ring_fetch (ring_store rb p0 (concat bufs)) (p0 + j * ?x) ?x"
        using r3 j unfolding RB by (simp add: v m lo)
      also have "\<dots> = bufs ! j"
      proof (rule nth_equalityI)
        show "length (ring_fetch (ring_store rb p0 (concat bufs)) (p0 + j * ?x) ?x) = length (bufs ! j)"
          using lb by simp
      next
        fix i assume "i < length (ring_fetch (ring_store rb p0 (concat bufs)) (p0 + j * ?x) ?x)"
        then have i: "i < ?x" by simp
        have "Suc j * ?x \<le> ?N * ?x"
          using j by (intro mult_le_mono1) simp
        then have lt: "j * ?x + i < ?N * ?x"
          using i by simp
        have "ring_fetch (ring_store rb p0 (concat bufs)) (p0 + j * ?x) ?x ! i =
              ring_store rb p0 (concat bufs) ! ((p0 + (j * ?x + i)) mod kRingBufferSize)"
          using i by (simp add: nth_ring_fetch add.assoc)
        also have "\<dots> = concat bufs ! (j * ?x + i)"
          using assms(2) lt fits by (intro nth_ring_store) (simp_all add: lc mult.assoc)
        also have "\<dots> = bufs ! j ! i"
          using assms(6) j i by (rule nth_concat_uniform)
        finally show "ring_fetch (ring_store rb p0 (concat bufs)) (p0 + j * ?x) ?x ! i = bufs ! j ! i" .
      qed
      finally show "res ! j = bufs ! j" .
    qed
  qed
  have "ringBufferWritePosition ?s2 = (p0 + ?N * K * kChannelsPerFrame) mod kRingBufferSize"
    using pos by simp
  moreover have "ringBufferReadPosition ?s2 = (p0 + ?N * K * kChannelsPerFrame) mod kRingBufferSize"
    using pos by simp
  ultimately show ?thesis
    using w r1 same by blast
qed

theorem C1_write_then_read_witness:
  "\<exists>s1 res s2.
     run_WriteMix 1 [[1 / 2, 1 / 4], [1, - 1]] (InitializeDriverState 1 1 gDriverState_zero) = Some s1
   \<and> run_ReadInput 1 [[0, 0], [0, 0]] s1 = Some (res, s2)
   \<and> ringBufferWritePosition s2 =
       (0 + length [[1 / 2, 1 / 4], [1, - 1 :: real]] * 1 * kChannelsPerFrame) mod kRingBufferSize
   \<and> ringBufferReadPosition s2 =
       (0 + length [[1 / 2, 1 / 4], [1, - 1 :: real]] * 1 * kChannelsPerFrame) mod kRingBufferSize
   \<and> (inputVolume (InitializeDriverState 1 1 gDriverState_zero) = 1
        \<and> outputVolume (InitializeDriverState 1 1 gDriverState_zero) = 1
        \<and> length [[1 / 2, 1 / 4], [1, - 1 :: real]] * 1 * kChannelsPerFrame \<le> kRingBufferSize
          \<longrightarrow> res = [[1 / 2, 1 / 4], [1, - 1]])"
proof -
  have a: "length (replicate kRingBufferSize (0::real)) = kRingBufferSize"
    by simp
  have b: "\<forall>b \<in> set [[1 / 2, 1 / 4], [1, - 1 :: real]]. length b = 1 * kChannelsPerFrame"
    by (simp add: kChannelsPerFrame_def)
  have c: "\<forall>b \<in> set [[0, 0], [0, 0 :: real]]. length b = 1 * kChannelsPerFrame"
    by (simp add: kChannelsPerFrame_def)
  have d: "length [[0, 0], [0, 0 :: real]] = length [[1 / 2, 1 / 4], [1, - 1 :: real]]"
    by simp
  show ?thesis
    by (rule C1_write_then_read [OF InitializeDriverState_ring(1) a
          InitializeDriverState_ring(2,3) kRingBufferSize_pos b c d])
qed

text \<open>
  C1 as stated fails: from positions 0, one write of one frame followed by one read of one
  frame leaves both positions at 2 (the two samples of the frame), not at
  \<open>N \<times> K mod capacity = 1\<close>.
\<close>

theorem C1_positions_count_samples:
  "map_option (ringBufferWritePosition \<circ> snd)
     (Option.bind (run_WriteMix 1 [[1 / 2, 1 / 4]] (InitializeDriverState 1 1 gDriverState_zero))
        (run_ReadInput 1 [[0, 0]])) = Some 2
   \<and> map_option (ringBufferReadPosition \<circ> snd)
     (Option.bind (run_WriteMix 1 [[1 / 2, 1 / 4]] (InitializeDriverState 1 1 gDriverState_zero))
        (run_ReadInput 1 [[0, 0]])) = Some 2
   \<and> (1 * 1) mod kRingBufferSize = 1"
proof -
  let ?s = "InitializeDriverState 1 1 gDriverState_zero"
  have a: "length (replicate kRingBufferSize (0::real)) = kRingBufferSize"
    by simp
  have b: "\<forall>b \<in> set [[1 / 2, 1 / 4 :: real]]. length b = 1 * kChannelsPerFrame"
    by (simp add: kChannelsPerFrame_def)
  have c: "\<forall>b \<in> set [[0, 0 :: real]]. length b = 1 * kChannelsPerFrame"
    by (simp add: kChannelsPerFrame_def)
  have d: "length [[0, 0 :: real]] = length [[1 / 2, 1 / 4 :: real]]"
    by simp
  have m: "(0 + length [[1 / 2, 1 / 4 :: real]] * u32 (1 * kChannelsPerFrame)) mod kRingBufferSize = 2"
    by (simp add: u32_def kChannelsPerFrame_def kRingBufferSize_eq)
  from write_then_read_runs [OF InitializeDriverState_ring(1) a
      InitializeDriverState_ring(2,3) kRingBufferSize_pos b c d]
  obtain s1 res s2 where
    w: "run_WriteMix 1 [[1 / 2, 1 / 4]] ?s = Some s1"
    and r: "run_ReadInput 1 [[0, 0]] s1 = Some (res, s2)"
    and wp: "ringBufferWritePosition s2 =
               (0 + length [[1 / 2, 1 / 4 :: real]] * u32 (1 * kChannelsPerFrame))
                 mod kRingBufferSize"
    and rp: "ringBufferReadPosition s2 =
               (0 + length [[1 / 2, 1 / 4 :: real]] * u32 (1 * kChannelsPerFrame))
                 mod kRingBufferSize"
    by fastforce
  have run: "Option.bind (run_WriteMix 1 [[1 / 2, 1 / 4]] ?s) (run_ReadInput 1 [[0, 0]]) =
               Some (res, s2)"
    unfolding w using r by simp
  have "ringBufferWritePosition s2 = 2" "ringBufferReadPosition s2 = 2"
    using wp rp m by simp_all
  then show ?thesis
    unfolding run by (simp add: kRingBufferSize_eq)
qed

end
